theory Spec2Isabelle
  imports Complex_Main
begin

section \<open>Strings\<close>

text \<open>
  Python strings are modelled as \<^typ>\<open>string\<close>. Column names and cell texts are taken to be
  ASCII: the character classes below are the ASCII part of Python's \<^verbatim>\<open>str.lower\<close>,
  \<^verbatim>\<open>str.isalpha\<close>, \<^verbatim>\<open>\d\<close> and \<^verbatim>\<open>\s\<close>.
\<close>

definition ascii_lowercase :: string where
  "ascii_lowercase = ''abcdefghijklmnopqrstuvwxyz''"

definition ascii_uppercase :: string where
  "ascii_uppercase = ''ABCDEFGHIJKLMNOPQRSTUVWXYZ''"

definition ascii_digits :: string where
  "ascii_digits = ''0123456789''"

definition whitespace :: string where
  "whitespace = [CHR 0x09, CHR 0x0A, CHR 0x0B, CHR 0x0C, CHR 0x0D,
                 CHR 0x1C, CHR 0x1D, CHR 0x1E, CHR 0x1F, CHR 0x20]"

definition is_lower :: "char \<Rightarrow> bool" where
  "is_lower c = (c \<in> set ascii_lowercase)"

definition is_digit :: "char \<Rightarrow> bool" where
  "is_digit c = (c \<in> set ascii_digits)"

definition is_space :: "char \<Rightarrow> bool" where
  "is_space c = (c \<in> set whitespace)"

definition isalpha :: "char \<Rightarrow> bool" where
  "isalpha c = (c \<in> set (ascii_lowercase @ ascii_uppercase))"

definition lower_char :: "char \<Rightarrow> char" where
  "lower_char c = (case map_of (zip ascii_uppercase ascii_lowercase) c of Some l \<Rightarrow> l | None \<Rightarrow> c)"

definition lower :: "string \<Rightarrow> string" where
  "lower s = map lower_char s"

text \<open>\<^verbatim>\<open>str(n)\<close> for a non-negative integer.\<close>

fun string_of_nat :: "nat \<Rightarrow> string" where
  "string_of_nat n =
     (if n < 10 then [ascii_digits ! n]
      else string_of_nat (n div 10) @ [ascii_digits ! (n mod 10)])"

declare string_of_nat.simps [simp del]

text \<open>The value of a decimal numeral, used to show that \<^const>\<open>string_of_nat\<close> is injective.\<close>

definition digit_value :: "char \<Rightarrow> nat" where
  "digit_value c = (case map_of (zip ascii_digits [0 ..< 10]) c of Some d \<Rightarrow> d | None \<Rightarrow> 0)"

definition nat_of_string :: "string \<Rightarrow> nat" where
  "nat_of_string s = foldl (\<lambda>a c. 10 * a + digit_value c) 0 s"

text \<open>\<^verbatim>\<open>sep.join(words)\<close>.\<close>

fun join :: "string \<Rightarrow> string list \<Rightarrow> string" where
  "join sep [] = []"
| "join sep [w] = w"
| "join sep (w # v # ws) = w @ sep @ join sep (v # ws)"

text \<open>\<^verbatim>\<open>re.sub(r'\s+', ' ', name)\<close>: every maximal run of whitespace becomes one space.\<close>

function collapse_ws :: "string \<Rightarrow> string" where
  "collapse_ws [] = []"
| "collapse_ws (c # cs) =
     (if is_space c then CHR '' '' # collapse_ws (dropWhile is_space cs)
      else c # collapse_ws cs)"
  by pat_completeness auto
termination
  by (relation "measure length") (auto simp: le_imp_less_Suc length_dropWhile_le)

text \<open>\<^verbatim>\<open>name.split()\<close>: the maximal runs of non-whitespace characters.\<close>

function split :: "string \<Rightarrow> string list" where
  "split [] = []"
| "split (c # cs) =
     (if is_space c then split cs
      else (c # takeWhile (\<lambda>x. \<not> is_space x) cs)
             # split (dropWhile (\<lambda>x. \<not> is_space x) cs))"
  by pat_completeness auto
termination
  by (relation "measure length") (auto simp: le_imp_less_Suc length_dropWhile_le)


section \<open>Column-name cleaning (ebay\_sql\_query.py)\<close>

text \<open>
  \<^verbatim>\<open>clean_column_name(column)\<close>: lower-case the name, replace every character outside
  \<^verbatim>\<open>[a-z0-9\s]\<close> by a space, collapse whitespace, split into words, drop the filler
  words, join with underscores and prefix \<^verbatim>\<open>col_\<close> unless the name starts with a letter.
\<close>

definition filler_words :: "string list" where
  "filler_words = [''the'', ''a'', ''an'', ''and'', ''or'', ''but'', ''in'', ''on'', ''at'',
                   ''to'', ''for'', ''of'', ''with'']"

definition sub_special :: "string \<Rightarrow> string" where
  "sub_special name =
     map (\<lambda>c. if is_lower c \<or> is_digit c \<or> is_space c then c else CHR '' '') name"

definition clean_column_name :: "string \<Rightarrow> string" where
  "clean_column_name column =
     (let name = lower column;
          name = sub_special name;
          name = collapse_ws name;
          words = split name;
          words = filter (\<lambda>w. w \<notin> set filler_words) words
      in if words = [] then ''column''
         else let name = join ''_'' words
              in if \<not> isalpha (hd name) then ''col_'' @ name else name)"

text \<open>
  The inner \<^verbatim>\<open>while clean_name in new_names\<close> loop of \<^verbatim>\<open>clean_column_names\<close>. Its state is
  \<^verbatim>\<open>counter\<close> and \<^verbatim>\<open>clean_name\<close>; it ends because the candidates
  \<^verbatim>\<open>base_1, base_2, ...\<close> are pairwise different and \<^verbatim>\<open>new_names\<close> is finite.
\<close>

definition candidate :: "string \<Rightarrow> nat \<Rightarrow> string" where
  "candidate base_name counter = base_name @ ''_'' @ string_of_nat counter"

lemma digit_value_nth: "d < 10 \<Longrightarrow> digit_value (ascii_digits ! d) = d"
proof -
  assume "d < 10"
  then have "d \<in> {0, 1, 2, 3, 4, 5, 6, 7, 8, 9}" by auto
  then show ?thesis
    by (auto simp: digit_value_def ascii_digits_def upt_conv_Cons)
qed

lemma nat_of_string_snoc: "nat_of_string (s @ [c]) = 10 * nat_of_string s + digit_value c"
  by (simp add: nat_of_string_def)

lemma nat_of_string_of_nat: "nat_of_string (string_of_nat n) = n"
proof (induction n rule: string_of_nat.induct)
  case (1 n)
  show ?case
  proof (cases "n < 10")
    case True
    then show ?thesis
      by (simp add: string_of_nat.simps [of n] nat_of_string_def digit_value_nth)
  next
    case False
    with 1 show ?thesis
      by (simp add: string_of_nat.simps [of n] nat_of_string_snoc digit_value_nth)
  qed
qed

lemma inj_string_of_nat: "inj string_of_nat"
  by (rule inj_on_inverseI [where g = nat_of_string]) (rule nat_of_string_of_nat)

lemma inj_candidate: "inj (candidate b)"
  using inj_string_of_nat by (auto simp: inj_def candidate_def)

lemma finite_taken: "finite {j. k \<le> j \<and> candidate b j \<in> set ns}"
proof -
  have "finite (candidate b -` set ns)"
    by (rule finite_vimageI) (simp_all add: inj_candidate)
  moreover have "{j. k \<le> j \<and> candidate b j \<in> set ns} \<subseteq> candidate b -` set ns"
    by auto
  ultimately show ?thesis by (rule rev_finite_subset)
qed

definition taken :: "string \<Rightarrow> nat \<Rightarrow> string list \<Rightarrow> nat" where
  "taken b k ns = card {j. k \<le> j \<and> candidate b j \<in> set ns}"

lemma taken_Suc_in: "candidate b k \<in> set ns \<Longrightarrow> taken b k ns = Suc (taken b (Suc k) ns)"
proof -
  assume a: "candidate b k \<in> set ns"
  have "{j. k \<le> j \<and> candidate b j \<in> set ns}
        = insert k {j. Suc k \<le> j \<and> candidate b j \<in> set ns}"
    using a by (auto simp: Suc_le_eq le_less)
  moreover have "k \<notin> {j. Suc k \<le> j \<and> candidate b j \<in> set ns}" by simp
  ultimately show ?thesis
    unfolding taken_def using finite_taken [of "Suc k" b ns] by simp
qed

lemma taken_Suc_notin: "candidate b k \<notin> set ns \<Longrightarrow> taken b (Suc k) ns = taken b k ns"
proof -
  assume a: "candidate b k \<notin> set ns"
  have "{j. k \<le> j \<and> candidate b j \<in> set ns} = {j. Suc k \<le> j \<and> candidate b j \<in> set ns}"
    using a by (auto simp: Suc_le_eq le_less)
  then show ?thesis by (simp add: taken_def)
qed

function unique_name :: "string \<Rightarrow> nat \<Rightarrow> string \<Rightarrow> string list \<Rightarrow> string" where
  "unique_name base_name counter clean_name new_names =
     (if clean_name \<in> set new_names
      then unique_name base_name (counter + 1) (candidate base_name counter) new_names
      else clean_name)"
  by pat_completeness auto
termination
proof (relation "measure (\<lambda>(b, k, c, ns). 2 * taken b k ns + (if c \<in> set ns then 1 else 0))")
  show "wf (measure (\<lambda>(b, k, c, ns). 2 * taken b k ns + (if c \<in> set ns then 1 else 0)))"
    by simp
next
  fix base_name :: string and counter :: nat and clean_name :: string and new_names :: "string list"
  assume "clean_name \<in> set new_names"
  then show "((base_name, counter + 1, candidate base_name counter, new_names),
              (base_name, counter, clean_name, new_names))
             \<in> measure (\<lambda>(b, k, c, ns). 2 * taken b k ns + (if c \<in> set ns then 1 else 0))"
    by (cases "candidate base_name counter \<in> set new_names")
       (simp_all add: taken_Suc_in taken_Suc_notin)
qed

declare unique_name.simps [simp del]

text \<open>
  The loop over \<^verbatim>\<open>df.columns\<close>, with \<^verbatim>\<open>new_names\<close> and the dictionary
  \<^verbatim>\<open>original_names\<close> as accumulators; the table's data is not touched, so the table is
  represented by its list of column names.
\<close>

fun clean_loop ::
  "string list \<Rightarrow> string list \<Rightarrow> (string \<rightharpoonup> string) \<Rightarrow> string list \<times> (string \<rightharpoonup> string)" where
  "clean_loop [] new_names original_names = (new_names, original_names)"
| "clean_loop (col # cols) new_names original_names =
     (let clean_name = clean_column_name col;
          base_name = clean_name;
          clean_name = unique_name base_name 1 clean_name new_names
      in clean_loop cols (new_names @ [clean_name]) (original_names(clean_name \<mapsto> col)))"

definition clean_column_names :: "string list \<Rightarrow> string list \<times> (string \<rightharpoonup> string)" where
  "clean_column_names columns = clean_loop columns [] Map.empty"

text \<open>The shape of an identifier: a letter, then lower-case letters, digits or underscores.\<close>

definition ident_char :: "char \<Rightarrow> bool" where
  "ident_char c = (is_lower c \<or> is_digit c \<or> c = CHR ''_'')"

definition sql_identifier :: "string \<Rightarrow> bool" where
  "sql_identifier s = (s \<noteq> [] \<and> isalpha (hd s) \<and> list_all ident_char (tl s))"

definition alnum :: "char \<Rightarrow> bool" where
  "alnum c = (is_lower c \<or> is_digit c)"


subsection \<open>Cleaned names are distinct identifiers\<close>

lemma set_collapse_ws: "set (collapse_ws s) \<subseteq> insert (CHR '' '') (set s)"
proof (induction s rule: collapse_ws.induct)
  case 1
  then show ?case by simp
next
  case (2 c cs)
  have "set (dropWhile is_space cs) \<subseteq> set cs" by (rule set_dropWhileD [THEN subsetI]) 
  with 2 show ?case by auto
qed

lemma split_word: "w \<in> set (split s) \<Longrightarrow> w \<noteq> [] \<and> (\<forall>c \<in> set w. c \<in> set s \<and> \<not> is_space c)"
proof (induction s rule: split.induct)
  case 1
  then show ?case by simp
next
  case (2 c cs)
  show ?case
  proof (cases "is_space c")
    case True
    with 2 show ?thesis by auto
  next
    case False
    have sub: "set (dropWhile (\<lambda>x. \<not> is_space x) cs) \<subseteq> set cs"
      by (rule set_dropWhileD [THEN subsetI])
    from 2(3) False consider "w = c # takeWhile (\<lambda>x. \<not> is_space x) cs"
      | "w \<in> set (split (dropWhile (\<lambda>x. \<not> is_space x) cs))" by auto
    then show ?thesis
    proof cases
      case 1
      then show ?thesis using False by (auto dest: set_takeWhileD)
    next
      case 2
      with "2.IH"(2) False sub show ?thesis by auto
    qed
  qed
qed

lemma space_is_space: "is_space (CHR '' '')"
  by (simp add: is_space_def whitespace_def)

lemma sub_special_chars: "c \<in> set (sub_special s) \<Longrightarrow> is_lower c \<or> is_digit c \<or> is_space c"
  by (auto simp: sub_special_def space_is_space split: if_splits)

lemma words_alnum:
  assumes "w \<in> set (split (collapse_ws (sub_special s)))"
  shows "w \<noteq> [] \<and> list_all alnum w"
proof -
  from split_word [OF assms]
  have ne: "w \<noteq> []" and ch: "\<forall>c \<in> set w. c \<in> set (collapse_ws (sub_special s)) \<and> \<not> is_space c"
    by auto
  have "alnum c" if "c \<in> set w" for c
  proof -
    from ch that have 1: "c \<in> set (collapse_ws (sub_special s))" and 2: "\<not> is_space c" by auto
    from 1 set_collapse_ws have "c = CHR '' '' \<or> c \<in> set (sub_special s)" by auto
    with 2 space_is_space have "c \<in> set (sub_special s)" by auto
    with sub_special_chars 2 show ?thesis by (auto simp: alnum_def)
  qed
  with ne show ?thesis by (simp add: list_all_iff)
qed

lemma join_chars:
  "\<forall>w \<in> set ws. list_all alnum w \<Longrightarrow> list_all ident_char (join ''_'' ws)"
  by (induction "''_''" ws rule: join.induct) (auto simp: ident_char_def alnum_def list_all_iff)

lemma join_hd: "ws \<noteq> [] \<Longrightarrow> hd ws \<noteq> [] \<Longrightarrow> join sep ws \<noteq> [] \<and> hd (join sep ws) = hd (hd ws)"
  by (induction sep ws rule: join.induct) auto

lemma lower_isalpha: "is_lower c \<Longrightarrow> isalpha c"
  by (simp add: is_lower_def isalpha_def)

lemma sql_identifier_column: "sql_identifier ''column''"
  by (simp add: sql_identifier_def isalpha_def ident_char_def is_lower_def ascii_lowercase_def)

lemma sql_identifier_col_prefix:
  "list_all ident_char name \<Longrightarrow> sql_identifier (''col_'' @ name)"
  by (simp add: sql_identifier_def isalpha_def ident_char_def is_lower_def ascii_lowercase_def)

lemma sql_identifier_clean_column_name: "sql_identifier (clean_column_name column)"
proof -
  define ws where "ws = filter (\<lambda>w. w \<notin> set filler_words) (split (collapse_ws (sub_special (lower column))))"
  have ws: "\<forall>w \<in> set ws. w \<noteq> [] \<and> list_all alnum w"
    unfolding ws_def using words_alnum by auto
  show ?thesis
  proof (cases "ws = []")
    case True
    then show ?thesis
      by (simp add: clean_column_name_def ws_def [symmetric] sql_identifier_column)
  next
    case False
    then have "hd ws \<in> set ws" by simp
    with ws have "hd ws \<noteq> []" by blast
    with False have j: "join ''_'' ws \<noteq> []" by (simp add: join_hd)
    from ws have ch: "list_all ident_char (join ''_'' ws)" by (simp add: join_chars)
    then have "list_all ident_char (tl (join ''_'' ws))"
      using j by (cases "join ''_'' ws") simp_all
    with j have "isalpha (hd (join ''_'' ws)) \<Longrightarrow> sql_identifier (join ''_'' ws)"
      by (simp add: sql_identifier_def)
    moreover have "sql_identifier (''col_'' @ join ''_'' ws)"
      using ch by (rule sql_identifier_col_prefix)
    ultimately show ?thesis
      using False by (simp only: clean_column_name_def ws_def [symmetric] Let_def if_False split: if_split)
        blast
  qed
qed

lemma string_of_nat_digits: "list_all is_digit (string_of_nat n)"
proof (induction n rule: string_of_nat.induct)
  case (1 n)
  have d: "is_digit (ascii_digits ! d)" if "d < 10" for d
  proof -
    have "length ascii_digits = 10" by (simp add: ascii_digits_def)
    with that show ?thesis unfolding is_digit_def by (intro nth_mem) simp
  qed
  show ?case
  proof (cases "n < 10")
    case True
    then show ?thesis by (simp add: string_of_nat.simps [of n] d)
  next
    case False
    with 1 show ?thesis by (simp add: string_of_nat.simps [of n] d)
  qed
qed

lemma sql_identifier_candidate: "sql_identifier b \<Longrightarrow> sql_identifier (candidate b k)"
proof -
  assume b: "sql_identifier b"
  then obtain x xs where bx: "b = x # xs" by (cases b) (auto simp: sql_identifier_def)
  have "list_all ident_char (string_of_nat k)"
    using string_of_nat_digits [of k] by (auto simp: list_all_iff ident_char_def)
  with b bx show ?thesis
    by (simp add: sql_identifier_def candidate_def ident_char_def)
qed

lemma unique_name_fresh: "unique_name b k c ns \<notin> set ns"
  by (induction b k c ns rule: unique_name.induct) (simp add: unique_name.simps)

lemma unique_name_identifier:
  "sql_identifier b \<Longrightarrow> sql_identifier c \<Longrightarrow> sql_identifier (unique_name b k c ns)"
  by (induction b k c ns rule: unique_name.induct)
     (simp add: unique_name.simps sql_identifier_candidate)

lemma clean_loop_names:
  "distinct ns \<Longrightarrow> list_all sql_identifier ns \<Longrightarrow>
   distinct (fst (clean_loop cols ns m)) \<and> list_all sql_identifier (fst (clean_loop cols ns m))
   \<and> length (fst (clean_loop cols ns m)) = length ns + length cols"
proof (induction cols arbitrary: ns m)
  case Nil
  then show ?case by simp
next
  case (Cons col cols)
  let ?n = "unique_name (clean_column_name col) 1 (clean_column_name col) ns"
  have "distinct (ns @ [?n])" using Cons.prems(1) unique_name_fresh by simp
  moreover have "list_all sql_identifier (ns @ [?n])"
    using Cons.prems(2) by (simp add: unique_name_identifier sql_identifier_clean_column_name)
  ultimately show ?case
    using Cons.IH [of "ns @ [?n]"] by (simp add: Let_def)
qed

text \<open>
  Claim C10. For every table, \<^verbatim>\<open>clean_column_names\<close> returns as many column names as it
  was given, the returned names are pairwise distinct, and each of them, like every result of
  \<^verbatim>\<open>clean_column_name\<close>, is a non-empty string that starts with a letter and continues
  with lower-case letters, digits or underscores.
\<close>

theorem clean_column_names_distinct_identifiers:
  "distinct (fst (clean_column_names columns))
   \<and> length (fst (clean_column_names columns)) = length columns
   \<and> list_all sql_identifier (fst (clean_column_names columns))
   \<and> sql_identifier (clean_column_name column)"
  using clean_loop_names [of "[]" columns Map.empty]
  by (simp add: clean_column_names_def sql_identifier_clean_column_name)

section \<open>Tables\<close>

text \<open>
  A pandas cell is absent (\<^verbatim>\<open>NaN\<close>, \<^verbatim>\<open>None\<close>, \<^verbatim>\<open>NaT\<close>), a text, a number or a
  timestamp. A number stands for the float it denotes; rounding is not modelled. A column
  is the list of its cells in row order, and a table is the list of its named columns in
  column order, so row \<open>i\<close> of the table is made of the \<open>i\<close>-th cell of every column.
\<close>

datatype cell = NaN | Str string | Num rat | Timestamp int

type_synonym series = "cell list"

type_synonym dataframe = "(string \<times> series) list"

datatype error = KeyError string | NameError string | ValueError string

text \<open>Sequencing of steps that may raise: the first exception ends the computation.\<close>

definition raising :: "error + 'a \<Rightarrow> ('a \<Rightarrow> error + 'b) \<Rightarrow> error + 'b" where
  "raising m f = (case m of Inl e \<Rightarrow> Inl e | Inr x \<Rightarrow> f x)"

text \<open>\<^verbatim>\<open>df.columns\<close>, \<^verbatim>\<open>len(df)\<close>, \<^verbatim>\<open>df.empty\<close>, \<^verbatim>\<open>df.head()\<close>.\<close>

definition columns :: "dataframe \<Rightarrow> string list" where
  "columns df = map fst df"

definition len :: "dataframe \<Rightarrow> nat" where
  "len df = (case df of [] \<Rightarrow> 0 | (name, col) # rest \<Rightarrow> length col)"

definition empty :: "dataframe \<Rightarrow> bool" where
  "empty df = (len df = 0)"

definition head :: "dataframe \<Rightarrow> dataframe" where
  "head df = map (\<lambda>(name, col). (name, take 5 col)) df"

text \<open>Every column of a table has the same number of cells.\<close>

definition rectangular :: "dataframe \<Rightarrow> bool" where
  "rectangular df = list_all (\<lambda>(name, col). length col = len df) df"

text \<open>\<^verbatim>\<open>df[name]\<close> raises \<^verbatim>\<open>KeyError\<close> for a missing column.\<close>

definition getitem :: "dataframe \<Rightarrow> string \<Rightarrow> error + series" where
  "getitem df name = (case map_of df name of None \<Rightarrow> Inl (KeyError name) | Some col \<Rightarrow> Inr col)"

text \<open>\<^verbatim>\<open>df[name] = col\<close> replaces the column in place, or appends a new last column.\<close>

definition setitem :: "dataframe \<Rightarrow> string \<Rightarrow> series \<Rightarrow> dataframe" where
  "setitem df name col =
     (if name \<in> set (columns df)
      then map (\<lambda>(n, c). if n = name then (n, col) else (n, c)) df
      else df @ [(name, col)])"

definition notna :: "cell \<Rightarrow> bool" where
  "notna c = (c \<noteq> NaN)"

text \<open>\<^verbatim>\<open>col.replace(a, b)\<close> and \<^verbatim>\<open>col.fillna(v)\<close> on one column.\<close>

definition replace :: "cell \<Rightarrow> cell \<Rightarrow> series \<Rightarrow> series" where
  "replace a b col = map (\<lambda>c. if c = a then b else c) col"

definition fillna :: "cell \<Rightarrow> series \<Rightarrow> series" where
  "fillna v col = map (\<lambda>c. if c = NaN then v else c) col"


section \<open>The query handler (ebay\_sql\_query.py)\<close>

text \<open>
  The component built from a result table. The source formats the values for display
  (\<^verbatim>\<open>format_scalar_value\<close>); the model keeps the values themselves.
\<close>

datatype component =
  NoResults
  | ScalarResult cell
  | SingleRow "(string \<times> cell) list"
  | DataTable dataframe

definition is_scalar_result :: "dataframe \<Rightarrow> bool" where
  "is_scalar_result df = (len df = 1 \<and> length (columns df) = 1)"

definition is_single_row_result :: "dataframe \<Rightarrow> bool" where
  "is_single_row_result df = (len df = 1 \<and> length (columns df) > 1)"

definition create_result_component :: "dataframe \<Rightarrow> component" where
  "create_result_component result_df =
     (if empty result_df then NoResults
      else if is_scalar_result result_df then ScalarResult (hd (snd (hd result_df)))
      else if is_single_row_result result_df
      then SingleRow (map (\<lambda>(name, col). (name, hd col)) result_df)
      else DataTable result_df)"

text \<open>A callback output is a value or \<^verbatim>\<open>dash.no_update\<close>.\<close>

datatype 'a callback_output = no_update | Update 'a

text \<open>
  \<^verbatim>\<open>run_query(n_clicks, query)\<close>. The query text is \<^verbatim>\<open>None\<close> until the text area has
  been edited. The database is a parameter: \<open>read_sql_query\<close> gives the result table, or
  the message of the exception that \<^verbatim>\<open>pd.read_sql_query\<close> raised; \<open>store_df\<close> is
  \<^verbatim>\<open>data_store.df\<close>. The module imports names \<^emph>\<open>from\<close> the package \<^verbatim>\<open>dash\<close> but never
  binds the name \<^verbatim>\<open>dash\<close> itself, so evaluating \<^verbatim>\<open>dash.no_update\<close> in the first branch
  raises \<^verbatim>\<open>NameError\<close>, outside the \<^verbatim>\<open>try\<close> block.
\<close>

definition run_query ::
  "(string \<Rightarrow> string + dataframe) \<Rightarrow> dataframe \<Rightarrow> nat \<Rightarrow> string option
   \<Rightarrow> error + (component callback_output \<times> string \<times> string callback_output)" where
  "run_query read_sql_query store_df n_clicks query =
     (if query = None \<or> query = Some []
      then Inl (NameError ''dash'')
      else case read_sql_query (the query) of
             Inr result_df \<Rightarrow>
               let result_component = create_result_component result_df;
                   info_message =
                     (if is_scalar_result result_df then ''Query returned a single value''
                      else if is_single_row_result result_df then ''Query returned a single row''
                      else ''Query returned '' @ string_of_nat (len result_df) @ '' rows'')
               in Inr (Update result_component, [], Update info_message)
           | Inl e \<Rightarrow>
               Inr (Update (create_result_component (head store_df)),
                    ''Query error: '' @ e,
                    Update (''Showing first 5 rows of '' @ string_of_nat (len store_df)
                            @ '' total rows'')))"

lemma run_query_nonempty_returns:
  "query = Some q \<Longrightarrow> q \<noteq> [] \<Longrightarrow> \<exists>r. run_query read_sql_query store_df n_clicks query = Inr r"
  by (cases "read_sql_query q") (simp_all add: run_query_def Let_def)

lemma run_query_error_string:
  "q \<noteq> [] \<Longrightarrow> read_sql_query q = Inl e \<Longrightarrow>
   fst (snd (projr (run_query read_sql_query store_df n_clicks (Some q)))) = ''Query error: '' @ e"
  by (simp add: run_query_def)

text \<open>
  Claim C9 says that no query lets an exception escape the handler. The handler does
  return a result or an error string for every non-empty query, but for the empty query
  (and for \<^verbatim>\<open>None\<close>) it raises \<^verbatim>\<open>NameError\<close>, whatever the database and the store hold.
\<close>

theorem run_query_empty_query_raises:
  "run_query read_sql_query store_df n_clicks (Some []) = Inl (NameError ''dash'')
   \<and> run_query read_sql_query store_df n_clicks None = Inl (NameError ''dash'')"
  by (simp add: run_query_def)

section \<open>Aggregation\<close>

text \<open>
  \<^verbatim>\<open>df.groupby(group_key)[sum_key].sum()\<close>, as in \<^verbatim>\<open>bydate\<close> (calculate\_payout.py) and
  \<^verbatim>\<open>daily_sales\<close> (hoold.py). The summed column is numeric: each entry is a number or
  \<^verbatim>\<open>NaN\<close>, here \<^term>\<open>None\<close>. pandas leaves out the rows whose group key is absent and
  skips \<^verbatim>\<open>NaN\<close> when it adds up a group. The result maps each group key to its total;
  the order in which pandas lists the groups is not modelled.
\<close>

definition zero_fill :: "rat option \<Rightarrow> rat" where
  "zero_fill v = (case v of None \<Rightarrow> 0 | Some x \<Rightarrow> x)"

fun groupby_sum_loop :: "(cell \<times> rat option) list \<Rightarrow> (cell \<rightharpoonup> rat) \<Rightarrow> (cell \<rightharpoonup> rat)" where
  "groupby_sum_loop [] totals = totals"
| "groupby_sum_loop ((key, v) # rows) totals =
     (if key = NaN then groupby_sum_loop rows totals
      else groupby_sum_loop rows
             (totals(key \<mapsto> (case totals key of None \<Rightarrow> 0 | Some s \<Rightarrow> s)
                                + (case v of None \<Rightarrow> 0 | Some x \<Rightarrow> x))))"

definition groupby_sum :: "series \<Rightarrow> rat option list \<Rightarrow> (cell \<rightharpoonup> rat)" where
  "groupby_sum keys vals = groupby_sum_loop (zip keys vals) Map.empty"

text \<open>The rows of one group, and the total the claim describes for it.\<close>

definition group_rows :: "cell \<Rightarrow> (cell \<times> rat option) list \<Rightarrow> rat option list" where
  "group_rows k rows = map snd (filter (\<lambda>(key, v). key = k) rows)"

definition zero_filled_total :: "rat option list \<Rightarrow> rat" where
  "zero_filled_total vs = sum_list (map zero_fill vs)"

lemma groupby_sum_loop_total:
  "groupby_sum_loop rows totals k =
     (if k \<noteq> NaN \<and> group_rows k rows \<noteq> []
      then Some ((case totals k of None \<Rightarrow> 0 | Some s \<Rightarrow> s) + zero_filled_total (group_rows k rows))
      else totals k)"
proof (induction rows arbitrary: totals)
  case Nil
  then show ?case by (simp add: group_rows_def)
next
  case (Cons row rows)
  obtain key v where row: "row = (key, v)" by (cases row)
  show ?case
  proof (cases "key = NaN")
    case True
    then show ?thesis
      using Cons.IH [of totals] by (auto simp: row group_rows_def)
  next
    case False
    define v0 where "v0 = (case v of None \<Rightarrow> 0 | Some x \<Rightarrow> x)"
    define t0 where "t0 = (case totals key of None \<Rightarrow> 0 | Some s \<Rightarrow> s)"
    define totals' where "totals' = totals(key \<mapsto> t0 + v0)"
    have step: "groupby_sum_loop (row # rows) totals k = groupby_sum_loop rows totals' k"
      using False by (simp add: row totals'_def t0_def v0_def)
    have v0: "zero_fill v = v0"
      by (simp add: zero_fill_def v0_def)
    show ?thesis
    proof (cases "k = key")
      case True
      have "group_rows k (row # rows) = v # group_rows k rows"
        using True by (simp add: row group_rows_def)
      moreover have "totals' k = Some (t0 + v0)"
        using True by (simp add: totals'_def)
      ultimately show ?thesis
        unfolding step Cons.IH [of totals'] using True False
        by (simp add: zero_filled_total_def v0 t0_def)
    next
      case neq: False
      have "group_rows k (row # rows) = group_rows k rows"
        using neq by (simp add: row group_rows_def)
      moreover have "totals' k = totals k"
        using neq by (simp add: totals'_def)
      ultimately show ?thesis
        unfolding step Cons.IH [of totals'] by auto
    qed
  qed
qed

text \<open>
  Claim C8. The total of a group is the sum of the values of its rows with every absent
  value counted as zero; a group is present as soon as it has a row, also when all its
  values are absent; a group with the values 10, 20 and absent sums to 30.
\<close>

theorem groupby_sum_zero_fill:
  "groupby_sum keys vals k =
     (if k \<noteq> NaN \<and> group_rows k (zip keys vals) \<noteq> []
      then Some (zero_filled_total (group_rows k (zip keys vals))) else None)
   \<and> zero_filled_total (vs @ [None] @ ws) = zero_filled_total (vs @ ws)
   \<and> groupby_sum [Str ''2024-01-05'', Str ''2024-01-06'', Str ''2024-01-05'', Str ''2024-01-05'']
                  [Some 10, Some 7, Some 20, None] (Str ''2024-01-05'') = Some 30
   \<and> groupby_sum [Str ''2024-01-05'', Str ''2024-01-06''] [None, Some 7] (Str ''2024-01-05'') = Some 0"
  by (simp add: groupby_sum_def groupby_sum_loop_total zero_filled_total_def zero_fill_def
      group_rows_def)

section \<open>The payout script (calculate\_payout.py)\<close>

text \<open>
  \<^verbatim>\<open>df.replace(a, b)\<close> on a whole table, \<^verbatim>\<open>df[mask]\<close> with a boolean mask (the rows
  whose mask entry is true, in their order), \<^verbatim>\<open>df[[names]]\<close> (raises \<^verbatim>\<open>KeyError\<close> for a
  missing column) and \<^verbatim>\<open>df.rename(columns={old: new})\<close>.
\<close>

definition replace_all :: "cell \<Rightarrow> cell \<Rightarrow> dataframe \<Rightarrow> dataframe" where
  "replace_all a b df = map (\<lambda>(name, col). (name, replace a b col)) df"

definition mask_rows :: "bool list \<Rightarrow> series \<Rightarrow> series" where
  "mask_rows keep col = map snd (filter fst (zip keep col))"

definition boolean_index :: "dataframe \<Rightarrow> bool list \<Rightarrow> dataframe" where
  "boolean_index df keep = map (\<lambda>(name, col). (name, mask_rows keep col)) df"

fun select :: "dataframe \<Rightarrow> string list \<Rightarrow> error + dataframe" where
  "select df [] = Inr []"
| "select df (name # names) =
     raising (getitem df name) (\<lambda>col.
     raising (select df names) (\<lambda>rest. Inr ((name, col) # rest)))"

definition rename :: "dataframe \<Rightarrow> string \<Rightarrow> string \<Rightarrow> dataframe" where
  "rename df old new = map (\<lambda>(name, col). (if name = old then new else name, col)) df"

text \<open>
  The dictionary \<^verbatim>\<open>ref\<close>: the loop runs over the Order rows in input order and executes
  \<^verbatim>\<open>ref[order] = item\<close> for each, so a later row overwrites the entry of an earlier one.
  An absent order number is a key like any other (the cells of a text column hold the one
  object \<^verbatim>\<open>np.nan\<close>).
\<close>

fun ref_loop :: "(cell \<times> cell) list \<Rightarrow> (cell \<rightharpoonup> cell) \<Rightarrow> (cell \<rightharpoonup> cell)" where
  "ref_loop [] ref = ref"
| "ref_loop ((order, item) # rest) ref = ref_loop rest (ref(order \<mapsto> item))"

text \<open>
  The backfill loop: a row whose title is \<^verbatim>\<open>np.nan\<close> takes \<^verbatim>\<open>ref[order]\<close>; when the
  key is missing, the \<^verbatim>\<open>KeyError\<close> is caught, a line is printed and the title stays
  absent. The result is the new title column and the printed lines.
\<close>

fun backfill :: "(cell \<rightharpoonup> cell) \<Rightarrow> (cell \<times> cell) list \<Rightarrow> series \<times> string list" where
  "backfill ref [] = ([], [])"
| "backfill ref ((order, title) # rest) =
     (let (titles, printed) = backfill ref rest
      in if title = NaN
         then (case ref order of
                 Some item \<Rightarrow> (item # titles, printed)
               | None \<Rightarrow> (title # titles, ''key not found'' # printed))
         else (title # titles, printed))"

text \<open>Lines 6 to 11: sentinel replacement, the filter on Payout rows, projection, renaming.\<close>

definition report_rows :: "dataframe \<Rightarrow> error + dataframe" where
  "report_rows csv =
     (let csv = replace_all (Str ''--'') NaN csv in
      raising (getitem csv ''Type'') (\<lambda>types.
      let report = boolean_index csv (map (\<lambda>t. t \<noteq> Str ''Payout'') types) in
      raising (select report [''Transaction creation date'', ''Type'', ''Order number'',
                              ''Net amount'', ''Item title'']) (\<lambda>report.
      Inr (rename report ''Transaction creation date'' ''Date''))))"

text \<open>Lines 12 to 20: the Order rows and the dictionary built from them.\<close>

definition build_ref :: "dataframe \<Rightarrow> error + (cell \<rightharpoonup> cell)" where
  "build_ref report =
     raising (getitem report ''Type'') (\<lambda>types.
     let orders = boolean_index report (map (\<lambda>t. t = Str ''Order'') types) in
     raising (getitem orders ''Order number'') (\<lambda>order_numbers.
     raising (getitem orders ''Item title'') (\<lambda>items.
     Inr (ref_loop (zip order_numbers items) Map.empty))))"

text \<open>Lines 5 to 29: the table \<^verbatim>\<open>report\<close> as printed, and the lines printed before it.\<close>

definition calculate_payout :: "dataframe \<Rightarrow> error + (dataframe \<times> string list)" where
  "calculate_payout csv =
     raising (report_rows csv) (\<lambda>report.
     raising (build_ref report) (\<lambda>ref.
     raising (getitem report ''Order number'') (\<lambda>order_numbers.
     raising (getitem report ''Item title'') (\<lambda>titles.
     let (titles, printed) = backfill ref (zip order_numbers titles)
     in Inr (setitem report ''Item title'' titles, printed)))))"

subsection \<open>Which title the dictionary keeps\<close>

lemma ref_loop_last_wins:
  "ref_loop pairs ref k = (case map_of (rev pairs) k of Some item \<Rightarrow> Some item | None \<Rightarrow> ref k)"
proof (induction pairs arbitrary: ref)
  case Nil
  then show ?case by simp
next
  case (Cons p pairs)
  obtain order item where p: "p = (order, item)" by (cases p)
  show ?case
    unfolding p ref_loop.simps Cons.IH
    by (simp add: map_add_def split: option.splits)
qed

text \<open>
  Two Order rows share the order number \<open>O1\<close>, with the titles \<open>Widget A\<close> and then
  \<open>Widget B\<close>; a Refund row of the same order has no title.
\<close>

definition two_titles_ledger :: dataframe where
  "two_titles_ledger =
     [(''Transaction creation date'', [Str ''Jan 5, 2024'', Str ''Jan 5, 2024'', Str ''Jan 9, 2024'']),
      (''Type'', [Str ''Order'', Str ''Order'', Str ''Refund'']),
      (''Order number'', [Str ''O1'', Str ''O1'', Str ''O1'']),
      (''Net amount'', [Num 10, Num 20, Num (- 10)]),
      (''Item title'', [Str ''Widget A'', Str ''Widget B'', Str ''--''])]"

text \<open>
  Claim C1 (first occurrence wins). In \<^verbatim>\<open>calculate_payout.py\<close> the dictionary built from
  the Order rows holds the title of the \<^emph>\<open>last\<close> Order row of an order number: on the
  ledger above it maps \<open>O1\<close> to \<open>Widget B\<close>, and the Refund row is backfilled with
  \<open>Widget B\<close>, not with \<open>Widget A\<close>.
\<close>

theorem calculate_payout_last_title_wins:
  "(case report_rows two_titles_ledger of
      Inr report \<Rightarrow> (case build_ref report of Inr ref \<Rightarrow> ref (Str ''O1'') | Inl e \<Rightarrow> None)
    | Inl e \<Rightarrow> None) = Some (Str ''Widget B'')
   \<and> (case calculate_payout two_titles_ledger of
        Inr (report, printed) \<Rightarrow> map_of report ''Item title''
      | Inl e \<Rightarrow> None) = Some [Str ''Widget A'', Str ''Widget B'', Str ''Widget B'']"
  by (simp add: calculate_payout_def report_rows_def build_ref_def two_titles_ledger_def
      raising_def getitem_def setitem_def columns_def replace_all_def replace_def
      boolean_index_def mask_rows_def rename_def)

section \<open>Normalising an uploaded ledger (hoold.py)\<close>

text \<open>
  Three functions of pandas and Python are parameters of the model: the date parser
  behind \<^verbatim>\<open>pd.to_datetime\<close> (\<^term>\<open>None\<close> where it raises), the text of a timestamp
  (\<^verbatim>\<open>str\<close> and \<^verbatim>\<open>strftime('%Y-%m-%d %H:%M:%S')\<close>) and the text of a float (\<^verbatim>\<open>str\<close>).
  Every theorem below holds for all choices of the three.
\<close>

record pandas =
  parse_datetime :: "cell \<Rightarrow> int option"
  format_datetime :: "int \<Rightarrow> string"
  float_str :: "rat \<Rightarrow> string"

text \<open>
  \<^verbatim>\<open>pd.to_datetime(col)\<close>: absent cells become \<^verbatim>\<open>NaT\<close>, timestamps stay, every other
  cell is parsed, and one cell that does not parse makes the whole call raise.
\<close>

definition to_datetime_cell :: "pandas \<Rightarrow> cell \<Rightarrow> cell option" where
  "to_datetime_cell pd c =
     (case c of
        NaN \<Rightarrow> Some NaN
      | Timestamp t \<Rightarrow> Some (Timestamp t)
      | _ \<Rightarrow> map_option Timestamp (parse_datetime pd c))"

definition to_datetime :: "pandas \<Rightarrow> series \<Rightarrow> error + series" where
  "to_datetime pd col =
     (case those (map (to_datetime_cell pd) col) of
        None \<Rightarrow> Inl (ValueError ''to_datetime'')
      | Some dates \<Rightarrow> Inr dates)"

text \<open>\<^verbatim>\<open>col.astype(str)\<close> on one cell.\<close>

definition astype_str :: "pandas \<Rightarrow> cell \<Rightarrow> string" where
  "astype_str pd c =
     (case c of
        NaN \<Rightarrow> ''nan''
      | Str s \<Rightarrow> s
      | Num x \<Rightarrow> float_str pd x
      | Timestamp t \<Rightarrow> format_datetime pd t)"

text \<open>\<^verbatim>\<open>.str.replace(r'[^\d.-]', '', regex=True)\<close>: only digits, dots and minus signs stay.\<close>

definition strip_non_numeric :: "string \<Rightarrow> string" where
  "strip_non_numeric s = filter (\<lambda>c. is_digit c \<or> c = CHR ''.'' \<or> c = CHR ''-'') s"

text \<open>
  \<^verbatim>\<open>pd.to_numeric(..., errors='coerce')\<close> on a text made of digits, dots and minus signs,
  which is all it is given here: an optional minus sign, then digits with at most one dot
  and at least one digit. Anything else, the empty text included, is \<^verbatim>\<open>NaN\<close>.
\<close>

definition unsigned_decimal :: "string \<Rightarrow> rat option" where
  "unsigned_decimal s =
     (let int_part = takeWhile is_digit s
      in case dropWhile is_digit s of
           [] \<Rightarrow> if int_part = [] then None else Some (of_nat (nat_of_string int_part))
         | c # frac_part \<Rightarrow>
             if c = CHR ''.'' \<and> list_all is_digit frac_part \<and> (int_part \<noteq> [] \<or> frac_part \<noteq> [])
             then Some (of_nat (nat_of_string (int_part @ frac_part)) / 10 ^ length frac_part)
             else None)"

definition to_numeric :: "string \<Rightarrow> rat option" where
  "to_numeric s =
     (if s \<noteq> [] \<and> hd s = CHR ''-'' then map_option uminus (unsigned_decimal (tl s))
      else unsigned_decimal s)"

definition coerce_numeric :: "pandas \<Rightarrow> cell \<Rightarrow> cell" where
  "coerce_numeric pd c =
     (case to_numeric (strip_non_numeric (astype_str pd c)) of
        None \<Rightarrow> NaN
      | Some x \<Rightarrow> Num x)"

text \<open>
  \<^verbatim>\<open>title_mapping\<close>: the rows with an order number and a title, grouped by order number,
  each group giving its first title. As a lookup, that is the first such row with the key.
\<close>

definition title_mapping :: "series \<Rightarrow> series \<Rightarrow> (cell \<rightharpoonup> cell)" where
  "title_mapping order_numbers titles =
     map_of (filter (\<lambda>(order, title). notna order \<and> notna title) (zip order_numbers titles))"

text \<open>
  \<^verbatim>\<open>df.loc[df['Order number'].notna(), 'Item title'] = df['Order number'].map(title_mapping)\<close>:
  every row with an order number takes the mapped title, or \<^verbatim>\<open>NaN\<close> when the mapping
  has no entry for it; the other rows keep their title.
\<close>

definition apply_mapping :: "(cell \<rightharpoonup> cell) \<Rightarrow> series \<Rightarrow> series \<Rightarrow> series" where
  "apply_mapping mapping order_numbers titles =
     map (\<lambda>(order, title).
            if notna order then (case mapping order of Some t \<Rightarrow> t | None \<Rightarrow> NaN) else title)
         (zip order_numbers titles)"

text \<open>
  The body of \<^verbatim>\<open>parse_contents\<close> in hoold.py from the table that \<^verbatim>\<open>read_csv\<close> returned
  to the table it returns. An exception of the body is caught by the function and
  reported as \<^verbatim>\<open>(None, 'Error processing ...')\<close>: here \<^term>\<open>Inl\<close>.
\<close>

definition parse_contents_hoold :: "pandas \<Rightarrow> dataframe \<Rightarrow> error + dataframe" where
  "parse_contents_hoold pd df =
     raising (getitem df ''Transaction creation date'') (\<lambda>dates.
     raising (to_datetime pd dates) (\<lambda>dates.
     let df = setitem df ''Transaction creation date'' dates in
     raising (getitem df ''Net amount'') (\<lambda>net.
     let df = setitem df ''Net amount'' (map (coerce_numeric pd) net) in
     raising (getitem df ''Item title'') (\<lambda>titles.
     let df = setitem df ''Item title'' (replace (Str ''--'') NaN titles) in
     raising (getitem df ''Order number'') (\<lambda>order_numbers.
     raising (getitem df ''Item title'') (\<lambda>titles.
     let mapping = title_mapping order_numbers titles;
         df = setitem df ''Item title'' (apply_mapping mapping order_numbers titles) in
     raising (getitem df ''Item title'') (\<lambda>titles.
     Inr (setitem df ''Item title'' (fillna (Str ''--'') titles)))))))))"

subsection \<open>Reading and writing columns\<close>

lemma raising_Inr [simp]: "raising (Inr x) f = f x"
  by (simp add: raising_def)

lemma raising_Inl [simp]: "raising (Inl e) f = Inl e"
  by (simp add: raising_def)

lemma raising_eq_Inr: "raising m f = Inr y \<longleftrightarrow> (\<exists>x. m = Inr x \<and> f x = Inr y)"
  by (cases m) simp_all

lemma getitem_eq_Inr: "getitem df name = Inr col \<longleftrightarrow> map_of df name = Some col"
  by (simp add: getitem_def split: option.splits)

lemma getitem_Some: "map_of df name = Some col \<Longrightarrow> getitem df name = Inr col"
  by (simp add: getitem_def)

lemma getitem_None: "map_of df name = None \<Longrightarrow> getitem df name = Inl (KeyError name)"
  by (simp add: getitem_def)

lemma in_columns: "name \<in> set (columns df) \<longleftrightarrow> map_of df name \<noteq> None"
  by (simp add: columns_def map_of_eq_None_iff)

lemma map_of_setitem:
  "map_of (setitem df name col) n = (if n = name then Some col else map_of df n)"
proof (cases "name \<in> set (columns df)")
  case True
  have "map_of (map (\<lambda>(n, c). if n = name then (n, col) else (n, c)) df) n
        = (if n = name then (if map_of df n = None then None else Some col) else map_of df n)"
    by (induction df) auto
  with True show ?thesis
    by (auto simp: setitem_def in_columns)
next
  case False
  then show ?thesis
    by (auto simp: setitem_def in_columns map_add_def split: option.splits)
qed

lemma columns_setitem:
  "name \<in> set (columns df) \<Longrightarrow> columns (setitem df name col) = columns df"
  by (induction df) (auto simp: setitem_def columns_def)

lemma columns_setitem_new:
  "name \<notin> set (columns df) \<Longrightarrow> columns (setitem df name col) = columns df @ [name]"
  by (simp add: setitem_def columns_def)

lemma setitem_setitem: "setitem (setitem df name a) name b = setitem df name b"
proof (cases "name \<in> set (columns df)")
  case True
  then have "name \<in> set (columns (setitem df name a))"
    by (simp add: columns_setitem)
  moreover have "map (\<lambda>(n, c). if n = name then (n, b) else (n, c))
                   (map (\<lambda>(n, c). if n = name then (n, a) else (n, c)) df)
                 = map (\<lambda>(n, c). if n = name then (n, b) else (n, c)) df"
    by (induction df) auto
  ultimately show ?thesis
    using True by (simp add: setitem_def)
next
  case False
  then have "map (\<lambda>(n, c). if n = name then (n, b) else (n, c)) df = df"
    by (induction df) (auto simp: columns_def)
  with False show ?thesis
    by (simp add: setitem_def columns_def)
qed

lemma rectangular_column_length:
  "rectangular df \<Longrightarrow> map_of df name = Some col \<Longrightarrow> length col = len df"
  by (auto simp: rectangular_def list_all_iff dest!: map_of_SomeD)

lemma len_setitem:
  "name \<in> set (columns df) \<Longrightarrow> length col = len df \<Longrightarrow> len (setitem df name col) = len df"
  by (cases df) (auto simp: setitem_def len_def columns_def)

lemma rectangular_setitem:
  assumes "rectangular df" and "length col = len df" and "name \<in> set (columns df)"
  shows "rectangular (setitem df name col)"
proof -
  have "len (setitem df name col) = len df"
    using assms by (simp add: len_setitem)
  moreover have "list_all (\<lambda>(n, c). length c = len df)
                   (map (\<lambda>(n, c). if n = name then (n, col) else (n, c)) df)"
    using assms(1,2) by (auto simp: rectangular_def list_all_iff split: if_splits)
  ultimately show ?thesis
    using assms(3) by (simp add: rectangular_def setitem_def)
qed

lemma those_eq_Some: "those xs = Some ys \<longleftrightarrow> xs = map Some ys"
proof (induction xs arbitrary: ys)
  case Nil
  then show ?case by auto
next
  case (Cons x xs)
  then show ?case
    by (cases x; cases ys) (auto split: option.splits)
qed

lemma those_eq_None: "those (map f xs) = None \<longleftrightarrow> (\<exists>x \<in> set xs. f x = None)"
  by (induction xs) (auto split: option.splits)

lemma those_map_Some: "those (map Some ys) = Some ys"
  by (simp add: those_eq_Some)

lemma to_datetime_eq_Inr:
  "to_datetime pd col = Inr dates \<longleftrightarrow> map (to_datetime_cell pd) col = map Some dates"
proof
  assume "to_datetime pd col = Inr dates"
  then have "those (map (to_datetime_cell pd) col) = Some dates"
    by (simp add: to_datetime_def split: option.splits)
  then show "map (to_datetime_cell pd) col = map Some dates"
    by (simp add: those_eq_Some)
next
  assume "map (to_datetime_cell pd) col = map Some dates"
  then show "to_datetime pd col = Inr dates"
    by (simp add: to_datetime_def those_map_Some)
qed

lemma to_datetime_length: "to_datetime pd col = Inr dates \<Longrightarrow> length dates = length col"
  by (auto simp: to_datetime_eq_Inr dest: map_eq_imp_length_eq)

lemma to_datetime_eq_Inl:
  "(\<exists>e. to_datetime pd col = Inl e) \<longleftrightarrow> (\<exists>c \<in> set col. to_datetime_cell pd c = None)"
  by (cases "those (map (to_datetime_cell pd) col)")
     (simp_all add: to_datetime_def those_eq_None [symmetric])

subsection \<open>An environment for the examples\<close>

text \<open>
  The examples need the three parameters at concrete cells. The date parser below accepts
  the two layouts \<^verbatim>\<open>YYYY-MM-DD\<close> and \<^verbatim>\<open>YYYY-MM-DD HH:MM:SS\<close> of a valid date between
  1700 and 2199, which pandas reads as that instant, and rejects every other text, among
  them texts without a digit, which pandas rejects as well. A timestamp is identified by
  its fourteen digits. The text of a float follows Python: positional notation for
  \<open>0\<close> and for \<open>10\<^sup>-\<^sup>4 \<le> |x| < 10\<^sup>1\<^sup>6\<close>, exponent notation otherwise, exact for
  decimals of up to seventeen digits.
\<close>

definition days_in_month :: "nat \<Rightarrow> nat \<Rightarrow> nat" where
  "days_in_month y m =
     (if m = 2 then (if y mod 4 = 0 \<and> (y mod 100 \<noteq> 0 \<or> y mod 400 = 0) then 29 else 28)
      else if m \<in> {4, 6, 9, 11} then 30 else 31)"

definition iso_datetime :: "cell \<Rightarrow> int option" where
  "iso_datetime c =
     (case c of
        Str s \<Rightarrow>
          (let y = take 4 s; m = take 2 (drop 5 s); d = take 2 (drop 8 s); t = drop 10 s;
               hh = take 2 (drop 1 t); mm = take 2 (drop 4 t); ss = drop 7 t
           in if length s \<in> {10, 19} \<and> s ! 4 = CHR ''-'' \<and> s ! 7 = CHR ''-''
                 \<and> list_all is_digit (y @ m @ d)
                 \<and> 1700 \<le> nat_of_string y \<and> nat_of_string y < 2200
                 \<and> 1 \<le> nat_of_string m \<and> nat_of_string m \<le> 12
                 \<and> 1 \<le> nat_of_string d \<and> nat_of_string d \<le> days_in_month (nat_of_string y) (nat_of_string m)
                 \<and> (t = [] \<or> t ! 0 = CHR '' '' \<and> t ! 3 = CHR '':'' \<and> t ! 6 = CHR '':''
                        \<and> list_all is_digit (hh @ mm @ ss)
                        \<and> nat_of_string hh < 24 \<and> nat_of_string mm < 60 \<and> nat_of_string ss < 60)
              then Some (int (nat_of_string (y @ m @ d @ (if t = [] then ''000000'' else hh @ mm @ ss))))
              else None)
      | _ \<Rightarrow> None)"

definition strftime :: "int \<Rightarrow> string" where
  "strftime t =
     (let s = string_of_nat (nat t); s = replicate (14 - length s) (CHR ''0'') @ s
      in take 4 s @ ''-'' @ take 2 (drop 4 s) @ ''-'' @ take 2 (drop 6 s) @ '' ''
         @ take 2 (drop 8 s) @ '':'' @ take 2 (drop 10 s) @ '':'' @ drop 12 s)"

fun frac_digits :: "nat \<Rightarrow> rat \<Rightarrow> string" where
  "frac_digits 0 r = []"
| "frac_digits (Suc n) r =
     (if r = 0 then []
      else let d = nat \<lfloor>r * 10\<rfloor> in ascii_digits ! d # frac_digits n (r * 10 - of_nat d))"

definition fixed_notation :: "rat \<Rightarrow> string" where
  "fixed_notation a =
     (let i = nat \<lfloor>a\<rfloor>; f = frac_digits 17 (a - of_nat i)
      in string_of_nat i @ ''.'' @ (if f = [] then ''0'' else f))"

fun leading_zeros :: "nat \<Rightarrow> rat \<Rightarrow> nat" where
  "leading_zeros 0 a = 0"
| "leading_zeros (Suc n) a = (if 1 \<le> a then 0 else Suc (leading_zeros n (a * 10)))"

definition exponent_notation :: "rat \<Rightarrow> string" where
  "exponent_notation a =
     (let up = length (string_of_nat (nat \<lfloor>a\<rfloor>)) - 1; down = leading_zeros 400 a;
          m = (if 1 \<le> a then a / 10 ^ up else a * 10 ^ down);
          i = nat \<lfloor>m\<rfloor>; f = frac_digits 17 (m - of_nat i);
          e = string_of_nat (if 1 \<le> a then up else down)
      in string_of_nat i @ (if f = [] then [] else ''.'' @ f)
         @ (if 1 \<le> a then ''e+'' else ''e-'') @ (if length e < 2 then ''0'' @ e else e))"

definition python_float_str :: "rat \<Rightarrow> string" where
  "python_float_str x =
     (if x < 0 then ''-'' else [])
     @ (if x = 0 \<or> (1 / 10 ^ 4 \<le> \<bar>x\<bar> \<and> \<bar>x\<bar> < 10 ^ 16) then fixed_notation \<bar>x\<bar>
        else exponent_notation \<bar>x\<bar>)"

definition python :: pandas where
  "python = \<lparr>parse_datetime = iso_datetime, format_datetime = strftime,
             float_str = python_float_str\<rparr>"

lemma frac_digits_numeral:
  "frac_digits (numeral k) r =
     (if r = 0 then []
      else let d = nat \<lfloor>r * 10\<rfloor>
           in ascii_digits ! d # frac_digits (pred_numeral k) (r * 10 - of_nat d))"
  by (simp add: numeral_eq_Suc)

lemma leading_zeros_numeral:
  "leading_zeros (numeral k) a =
     (if 1 \<le> a then 0 else Suc (leading_zeros (pred_numeral k) (a * 10)))"
  by (simp add: numeral_eq_Suc)

lemma floor_rat_numeral_divide:
  "\<lfloor>(numeral a :: rat) / numeral b\<rfloor> = numeral a div numeral b"
  using floor_divide_of_int_eq [of "numeral a" "numeral b", where ?'a = rat] by simp

lemmas python_simps = floor_rat_numeral_divide
  python_def python_float_str_def fixed_notation_def exponent_notation_def
  frac_digits_numeral leading_zeros_numeral string_of_nat.simps ascii_digits_def
  iso_datetime_def strftime_def days_in_month_def is_digit_def nat_of_string_def
  digit_value_def upt_conv_Cons Let_def

subsection \<open>What \<open>parse_contents\<close> of hoold.py returns\<close>

text \<open>The title column after the three title steps: sentinel to absent, backfill, absent to sentinel.\<close>

definition backfilled_titles :: "series \<Rightarrow> series \<Rightarrow> series" where
  "backfilled_titles order_numbers titles =
     (let titles = replace (Str ''--'') NaN titles
      in fillna (Str ''--'') (apply_mapping (title_mapping order_numbers titles) order_numbers titles))"

definition hoold_result :: "pandas \<Rightarrow> dataframe \<Rightarrow> series \<Rightarrow> series \<Rightarrow> series \<Rightarrow> series \<Rightarrow> dataframe" where
  "hoold_result pd df dates net order_numbers titles =
     setitem (setitem (setitem df ''Transaction creation date'' dates)
                ''Net amount'' (map (coerce_numeric pd) net))
       ''Item title'' (backfilled_titles order_numbers titles)"

lemma parse_contents_hoold_returns:
  assumes "map_of df ''Transaction creation date'' = Some dates"
    and "to_datetime pd dates = Inr dates'"
    and "map_of df ''Net amount'' = Some net"
    and "map_of df ''Item title'' = Some titles"
    and "map_of df ''Order number'' = Some order_numbers"
  shows "parse_contents_hoold pd df = Inr (hoold_result pd df dates' net order_numbers titles)"
  using assms
  by (simp add: parse_contents_hoold_def hoold_result_def backfilled_titles_def getitem_def
      map_of_setitem setitem_setitem Let_def)

lemma parse_contents_hoold_cases:
  "parse_contents_hoold pd df =
     (case map_of df ''Transaction creation date'' of
        None \<Rightarrow> Inl (KeyError ''Transaction creation date'')
      | Some dates \<Rightarrow>
     (case to_datetime pd dates of
        Inl e \<Rightarrow> Inl e
      | Inr dates' \<Rightarrow>
     (case map_of df ''Net amount'' of
        None \<Rightarrow> Inl (KeyError ''Net amount'')
      | Some net \<Rightarrow>
     (case map_of df ''Item title'' of
        None \<Rightarrow> Inl (KeyError ''Item title'')
      | Some titles \<Rightarrow>
     (case map_of df ''Order number'' of
        None \<Rightarrow> Inl (KeyError ''Order number'')
      | Some order_numbers \<Rightarrow> Inr (hoold_result pd df dates' net order_numbers titles))))))"
  by (auto simp: parse_contents_hoold_def hoold_result_def backfilled_titles_def getitem_def
      map_of_setitem setitem_setitem Let_def split: option.splits sum.splits)

lemma parse_contents_hoold_InrD:
  assumes "parse_contents_hoold pd df = Inr out"
  obtains dates dates' net titles order_numbers where
    "map_of df ''Transaction creation date'' = Some dates"
    "to_datetime pd dates = Inr dates'"
    "map_of df ''Net amount'' = Some net"
    "map_of df ''Item title'' = Some titles"
    "map_of df ''Order number'' = Some order_numbers"
    "out = hoold_result pd df dates' net order_numbers titles"
  using assms unfolding parse_contents_hoold_cases
  by (auto split: option.splits sum.splits)

lemma length_backfilled_titles:
  "length order_numbers = length titles \<Longrightarrow>
   length (backfilled_titles order_numbers titles) = length titles"
  by (simp add: backfilled_titles_def Let_def fillna_def apply_mapping_def replace_def)

lemma hoold_result_shape:
  assumes df: "rectangular df"
    and dates: "map_of df ''Transaction creation date'' = Some dates" "length dates' = length dates"
    and net: "map_of df ''Net amount'' = Some net"
    and titles: "map_of df ''Item title'' = Some titles"
    and orders: "map_of df ''Order number'' = Some order_numbers"
  shows "columns (hoold_result pd df dates' net order_numbers titles) = columns df"
    and "len (hoold_result pd df dates' net order_numbers titles) = len df"
    and "rectangular (hoold_result pd df dates' net order_numbers titles)"
proof -
  let ?d1 = "setitem df ''Transaction creation date'' dates'"
  let ?d2 = "setitem ?d1 ''Net amount'' (map (coerce_numeric pd) net)"
  let ?d3 = "setitem ?d2 ''Item title'' (backfilled_titles order_numbers titles)"
  have l: "length dates = len df" "length net = len df" "length titles = len df"
    "length order_numbers = len df"
    using df dates(1) net titles orders by (simp_all add: rectangular_column_length)
  have c1: "columns ?d1 = columns df"
    using dates(1) by (simp add: columns_setitem in_columns)
  have c2: "columns ?d2 = columns df"
    using net c1 by (simp add: columns_setitem in_columns)
  have c3: "columns ?d3 = columns df"
    using titles c2 by (simp add: columns_setitem in_columns)
  have i1: "''Transaction creation date'' \<in> set (columns df)"
    and i2: "''Net amount'' \<in> set (columns ?d1)"
    and i3: "''Item title'' \<in> set (columns ?d2)"
    using dates(1) net titles c1 c2 by (simp_all add: in_columns)
  have r1: "rectangular ?d1" and n1: "len ?d1 = len df"
    using df l dates(2) i1 by (simp_all add: rectangular_setitem len_setitem)
  have r2: "rectangular ?d2" and n2: "len ?d2 = len df"
    using r1 n1 l i2 by (simp_all add: rectangular_setitem len_setitem)
  have lt: "length (backfilled_titles order_numbers titles) = len ?d2"
    using l n2 by (simp add: length_backfilled_titles)
  have r3: "rectangular ?d3" and n3: "len ?d3 = len df"
    using r2 n2 lt i3 by (simp_all add: rectangular_setitem len_setitem)
  show "columns (hoold_result pd df dates' net order_numbers titles) = columns df"
    and "len (hoold_result pd df dates' net order_numbers titles) = len df"
    and "rectangular (hoold_result pd df dates' net order_numbers titles)"
    using c3 n3 r3 by (simp_all add: hoold_result_def)
qed

lemma map_of_hoold_result:
  "map_of (hoold_result pd df dates net order_numbers titles) name =
     (if name = ''Item title'' then Some (backfilled_titles order_numbers titles)
      else if name = ''Net amount'' then Some (map (coerce_numeric pd) net)
      else if name = ''Transaction creation date'' then Some dates
      else map_of df name)"
  by (simp add: hoold_result_def map_of_setitem)

text \<open>A small ledger and what \<^const>\<open>parse_contents_hoold\<close> makes of it.\<close>

definition small_ledger :: dataframe where
  "small_ledger =
     [(''Transaction creation date'', [Str ''2024-01-05'', Str ''2024-01-09'', Str ''2024-01-10'']),
      (''Type'', [Str ''Order'', Str ''Refund'', Str ''Payout'']),
      (''Order number'', [Str ''O1'', Str ''O1'', NaN]),
      (''Net amount'', [Str ''$1,234.56'', Str ''-$10.00'', Str ''--'']),
      (''Item title'', [Str ''Widget A'', Str ''--'', Str ''--'']),
      (''Buyer username'', [Str ''alice'', Str ''alice'', NaN])]"

definition small_ledger_normalized :: dataframe where
  "small_ledger_normalized =
     [(''Transaction creation date'',
         [Timestamp 20240105000000, Timestamp 20240109000000, Timestamp 20240110000000]),
      (''Type'', [Str ''Order'', Str ''Refund'', Str ''Payout'']),
      (''Order number'', [Str ''O1'', Str ''O1'', NaN]),
      (''Net amount'', [Num (123456 / 100), Num (- 10), NaN]),
      (''Item title'', [Str ''Widget A'', Str ''Widget A'', Str ''--'']),
      (''Buyer username'', [Str ''alice'', Str ''alice'', NaN])]"

lemmas table_simps =
  raising_def getitem_def setitem_def columns_def len_def rectangular_def replace_def
  fillna_def notna_def to_datetime_def to_datetime_cell_def title_mapping_def
  apply_mapping_def coerce_numeric_def astype_str_def strip_non_numeric_def to_numeric_def
  unsigned_decimal_def

lemma rectangular_small_ledger: "rectangular small_ledger"
  by (simp add: small_ledger_def rectangular_def len_def)

lemma parse_contents_hoold_small_ledger:
  "parse_contents_hoold python small_ledger = Inr small_ledger_normalized"
  by (simp add: parse_contents_hoold_def small_ledger_def small_ledger_normalized_def
      table_simps python_simps)

text \<open>
  Claim C2. When \<^verbatim>\<open>parse_contents\<close> of hoold.py returns a table, that table has the
  columns of the input in the same order and the same number of rows, and row \<open>i\<close> of the
  output comes from row \<open>i\<close> of the input: every column other than the date, the net
  amount and the item title is identical, the date and net amount columns hold the
  converted cell of the same row, and the title column has one title per input row.
\<close>

theorem parse_contents_hoold_preserves_rows:
  assumes "parse_contents_hoold pd df = Inr out" and "rectangular df"
  shows "columns out = columns df \<and> len out = len df \<and> rectangular out
    \<and> (\<forall>name. name \<notin> {''Transaction creation date'', ''Net amount'', ''Item title''}
          \<longrightarrow> map_of out name = map_of df name)
    \<and> (\<exists>dates dates' net titles titles'.
          map_of df ''Transaction creation date'' = Some dates
          \<and> map_of out ''Transaction creation date'' = Some dates'
          \<and> map (to_datetime_cell pd) dates = map Some dates'
          \<and> map_of df ''Net amount'' = Some net
          \<and> map_of out ''Net amount'' = Some (map (coerce_numeric pd) net)
          \<and> map_of df ''Item title'' = Some titles
          \<and> map_of out ''Item title'' = Some titles'
          \<and> length titles' = length titles)"
proof -
  from assms(1) obtain dates dates' net titles order_numbers where
    d: "map_of df ''Transaction creation date'' = Some dates"
    and p: "to_datetime pd dates = Inr dates'"
    and n: "map_of df ''Net amount'' = Some net"
    and t: "map_of df ''Item title'' = Some titles"
    and o: "map_of df ''Order number'' = Some order_numbers"
    and out: "out = hoold_result pd df dates' net order_numbers titles"
    by (rule parse_contents_hoold_InrD)
  have ld: "length dates' = length dates"
    using p by (rule to_datetime_length)
  have lt: "length (backfilled_titles order_numbers titles) = length titles"
    using assms(2) t o by (simp add: length_backfilled_titles rectangular_column_length)
  have "columns out = columns df" "len out = len df" "rectangular out"
    unfolding out using assms(2) d ld n t o by (rule hoold_result_shape)+
  moreover have "\<forall>name. name \<notin> {''Transaction creation date'', ''Net amount'', ''Item title''}
          \<longrightarrow> map_of out name = map_of df name"
    by (simp add: out map_of_hoold_result)
  moreover have "map (to_datetime_cell pd) dates = map Some dates'"
    using p by (simp add: to_datetime_eq_Inr)
  ultimately show ?thesis
    using d n t lt by (simp add: out map_of_hoold_result)
qed

theorem parse_contents_hoold_preserves_rows_witness:
  "parse_contents_hoold python small_ledger = Inr small_ledger_normalized
   \<and> rectangular small_ledger
   \<and> columns small_ledger_normalized = columns small_ledger
   \<and> len small_ledger_normalized = len small_ledger
   \<and> len small_ledger = 3
   \<and> map_of small_ledger_normalized ''Order number'' = map_of small_ledger ''Order number''"
  using parse_contents_hoold_preserves_rows
          [OF parse_contents_hoold_small_ledger rectangular_small_ledger]
        parse_contents_hoold_small_ledger rectangular_small_ledger
  by (simp add: small_ledger_def len_def)

section \<open>Normalising an uploaded orders report (gen\_dash\_app\_1.py)\<close>

definition numeric_columns :: "string list" where
  "numeric_columns =
     [''eBay collected tax'', ''Item price'', ''Quantity'', ''Item subtotal'',
      ''Shipping and handling'', ''Seller collected tax'', ''Discount'',
      ''Gross amount'', ''Final Value Fee - fixed'', ''Final Value Fee - variable'',
      ''Below standard performance fee'', ''Very high \"item not as described\" fee'',
      ''International fee'', ''Deposit processing fee'', ''Regulatory operating fee'',
      ''Promoted Listing Standard fee'', ''Charity donation'', ''Shipping labels'',
      ''Payment Dispute Fee'', ''Expenses'', ''Refunds'', ''Order earnings'']"

definition fee_columns :: "string list" where
  "fee_columns =
     [''Final Value Fee - fixed'', ''Final Value Fee - variable'',
      ''Below standard performance fee'', ''Very high \"item not as described\" fee'',
      ''International fee'', ''Deposit processing fee'', ''Regulatory operating fee'',
      ''Promoted Listing Standard fee'']"

text \<open>The nine columns whose absent cells are filled with the sentinel, in source order.\<close>

definition sentinel_columns :: "string list" where
  "sentinel_columns =
     [''Order number'', ''Item ID'', ''Buyer name'', ''Ship to city'',
      ''Ship to province/region/state'', ''Ship to zip'', ''Ship to country'',
      ''Transaction currency'', ''Payout currency'']"

text \<open>
  The loop over \<^verbatim>\<open>numeric_columns\<close>: a listed column that the table has is coerced and
  its absent results are replaced by \<open>0\<close>; a listed column that the table lacks is skipped.
\<close>

definition coerce_fill_zero :: "pandas \<Rightarrow> series \<Rightarrow> series" where
  "coerce_fill_zero pd col = fillna (Num 0) (map (coerce_numeric pd) col)"

fun coerce_columns :: "pandas \<Rightarrow> string list \<Rightarrow> dataframe \<Rightarrow> dataframe" where
  "coerce_columns pd [] df = df"
| "coerce_columns pd (col # cols) df =
     coerce_columns pd cols
       (case map_of df col of
          Some cells \<Rightarrow> setitem df col (coerce_fill_zero pd cells)
        | None \<Rightarrow> df)"

text \<open>The nine statements \<^verbatim>\<open>df[c] = df[c].fillna('--')\<close>, each raising for a missing column.\<close>

fun fill_sentinel :: "string list \<Rightarrow> dataframe \<Rightarrow> error + dataframe" where
  "fill_sentinel [] df = Inr df"
| "fill_sentinel (col # cols) df =
     raising (getitem df col) (\<lambda>cells.
     fill_sentinel cols (setitem df col (fillna (Str ''--'') cells)))"

text \<open>
  \<^verbatim>\<open>df[fee_columns].sum(axis=1)\<close>: the sum of each row over the selected columns, which
  hold numbers at this point; an absent cell is skipped.
\<close>

definition cell_value :: "cell \<Rightarrow> rat" where
  "cell_value c = (case c of Num x \<Rightarrow> x | _ \<Rightarrow> 0)"

definition sum_axis1 :: "nat \<Rightarrow> dataframe \<Rightarrow> series" where
  "sum_axis1 n df =
     map Num (foldr (\<lambda>(name, col) acc. map (\<lambda>(c, a). cell_value c + a) (zip col acc))
                df (replicate n 0))"

text \<open>\<^verbatim>\<open>.dt.strftime('%Y-%m-%d %H:%M:%S')\<close> on one cell of a datetime column.\<close>

definition strftime_cell :: "pandas \<Rightarrow> cell \<Rightarrow> cell" where
  "strftime_cell pd c = (case c of Timestamp t \<Rightarrow> Str (format_datetime pd t) | _ \<Rightarrow> NaN)"

text \<open>
  The body of \<^verbatim>\<open>parse_contents\<close> in gen\_dash\_app\_1.py from the table that was read to
  the table it returns; \<^term>\<open>Inl\<close> is the caught exception, reported as
  \<^verbatim>\<open>(None, 'Error processing ...')\<close>.
\<close>

definition parse_contents_gen_dash :: "pandas \<Rightarrow> dataframe \<Rightarrow> error + dataframe" where
  "parse_contents_gen_dash pd df =
     raising (getitem df ''Order creation date'') (\<lambda>dates.
     raising (to_datetime pd dates) (\<lambda>dates.
     let df = setitem df ''Order creation date'' dates;
         df = coerce_columns pd numeric_columns df in
     raising (getitem df ''Item title'') (\<lambda>titles.
     let df = setitem df ''Item title'' (replace (Str ''--'') NaN titles) in
     raising (getitem df ''Order number'') (\<lambda>order_numbers.
     raising (getitem df ''Item title'') (\<lambda>titles.
     let mapping = title_mapping order_numbers titles;
         df = setitem df ''Item title'' (apply_mapping mapping order_numbers titles) in
     raising (getitem df ''Item title'') (\<lambda>titles.
     let df = setitem df ''Item title'' (fillna (Str ''--'') titles) in
     raising (fill_sentinel sentinel_columns df) (\<lambda>df.
     raising (select df fee_columns) (\<lambda>fees.
     let df = setitem df ''Total Fees'' (sum_axis1 (len df) fees) in
     raising (getitem df ''Order creation date'') (\<lambda>dates.
     Inr (setitem df ''Order creation date'' (map (strftime_cell pd) dates)))))))))))"

text \<open>
  An orders report of two rows that has every column the function reads. Both rows lack
  an order number and a buyer name; their titles differ.
\<close>

definition orders_report :: dataframe where
  "orders_report =
     [(''Order creation date'', [Str ''2024-01-05'', Str ''2024-01-06'']),
      (''Order number'', [NaN, NaN]),
      (''Item ID'', [Str ''1001'', Str ''1002'']),
      (''Item title'', [Str ''Widget A'', Str ''Widget B'']),
      (''Buyer name'', [NaN, NaN]),
      (''Ship to city'', [Str ''Reno'', Str ''Boise'']),
      (''Ship to province/region/state'', [Str ''NV'', Str ''ID'']),
      (''Ship to zip'', [Str ''89501'', Str ''83702'']),
      (''Ship to country'', [Str ''US'', Str ''US'']),
      (''Transaction currency'', [Str ''USD'', Str ''USD'']),
      (''Payout currency'', [Str ''USD'', Str ''USD'']),
      (''Gross amount'', [Str ''$1,234.56'', Str ''--'']),
      (''Final Value Fee - fixed'', [Str ''$0.30'', Str ''$0.30'']),
      (''Final Value Fee - variable'', [Str ''$1.20'', Str ''--'']),
      (''Below standard performance fee'', [Str ''--'', Str ''--'']),
      (''Very high \"item not as described\" fee'', [Str ''--'', Str ''--'']),
      (''International fee'', [Str ''--'', Str ''--'']),
      (''Deposit processing fee'', [Str ''--'', Str ''--'']),
      (''Regulatory operating fee'', [Str ''--'', Str ''--'']),
      (''Promoted Listing Standard fee'', [Str ''--'', Str ''abc''])]"

definition orders_report_normalized :: dataframe where
  "orders_report_normalized =
     [(''Order creation date'', [Str ''2024-01-05 00:00:00'', Str ''2024-01-06 00:00:00'']),
      (''Order number'', [Str ''--'', Str ''--'']),
      (''Item ID'', [Str ''1001'', Str ''1002'']),
      (''Item title'', [Str ''Widget A'', Str ''Widget B'']),
      (''Buyer name'', [Str ''--'', Str ''--'']),
      (''Ship to city'', [Str ''Reno'', Str ''Boise'']),
      (''Ship to province/region/state'', [Str ''NV'', Str ''ID'']),
      (''Ship to zip'', [Str ''89501'', Str ''83702'']),
      (''Ship to country'', [Str ''US'', Str ''US'']),
      (''Transaction currency'', [Str ''USD'', Str ''USD'']),
      (''Payout currency'', [Str ''USD'', Str ''USD'']),
      (''Gross amount'', [Num (123456 / 100), Num 0]),
      (''Final Value Fee - fixed'', [Num (3 / 10), Num (3 / 10)]),
      (''Final Value Fee - variable'', [Num (6 / 5), Num 0]),
      (''Below standard performance fee'', [Num 0, Num 0]),
      (''Very high \"item not as described\" fee'', [Num 0, Num 0]),
      (''International fee'', [Num 0, Num 0]),
      (''Deposit processing fee'', [Num 0, Num 0]),
      (''Regulatory operating fee'', [Num 0, Num 0]),
      (''Promoted Listing Standard fee'', [Num 0, Num 0]),
      (''Total Fees'', [Num (3 / 2), Num (3 / 10)])]"

lemmas gen_dash_simps =
  numeric_columns_def fee_columns_def sentinel_columns_def coerce_fill_zero_def
  cell_value_def sum_axis1_def strftime_cell_def

subsection \<open>Numeric coercion\<close>

lemmas coerce_simps =
  coerce_numeric_def astype_str_def strip_non_numeric_def to_numeric_def unsigned_decimal_def
  is_digit_def ascii_digits_def nat_of_string_def digit_value_def upt_conv_Cons

lemma coerce_numeric_NaN: "coerce_numeric pd NaN = NaN"
  by (simp add: coerce_simps)

lemma coerce_numeric_range: "coerce_numeric pd c = NaN \<or> (\<exists>x. coerce_numeric pd c = Num x)"
  by (simp add: coerce_numeric_def split: option.splits)

text \<open>
  Claim C3 (numeric coercion) fails for gen\_dash\_app\_1.py, which replaces the absent
  results of the coercion by \<open>0\<close>: there the sentinel becomes the number \<open>0\<close>.
\<close>

theorem coerce_fill_zero_sentinel_not_absent:
  "coerce_fill_zero python [Str ''--''] \<noteq> [NaN]"
  by (simp add: coerce_fill_zero_def fillna_def coerce_simps)

text \<open>
  Claim C3, amended. The coercion \<^verbatim>\<open>pd.to_numeric(col.astype(str).str.replace(...),
  errors='coerce')\<close> maps \<^verbatim>\<open>"$1,234.56"\<close> to \<open>1234.56\<close> and maps \<^verbatim>\<open>"--"\<close> and \<^verbatim>\<open>"abc"\<close> to
  the absent marker, which is what hoold.py stores; gen\_dash\_app\_1.py then fills the
  absent results with \<open>0\<close>, so it stores \<open>0\<close> for \<^verbatim>\<open>"--"\<close> and \<^verbatim>\<open>"abc"\<close>. For every cell
  the result is a number or the absent marker; no cell makes the coercion raise.
\<close>

theorem coerce_numeric_examples:
  "coerce_numeric pd (Str ''$1,234.56'') = Num (123456 / 100)
   \<and> coerce_numeric pd (Str ''--'') = NaN
   \<and> coerce_numeric pd (Str ''abc'') = NaN
   \<and> coerce_fill_zero pd [Str ''$1,234.56'', Str ''--'', Str ''abc''] = [Num (123456 / 100), Num 0, Num 0]
   \<and> (coerce_numeric pd c = NaN \<or> (\<exists>x. coerce_numeric pd c = Num x))
   \<and> length (map (coerce_numeric pd) col) = length col
   \<and> length (coerce_fill_zero pd col) = length col"
  by (simp add: coerce_numeric_range coerce_fill_zero_def fillna_def) (simp add: coerce_simps)

subsection \<open>What \<open>parse_contents\<close> of gen\_dash\_app\_1.py returns\<close>

lemma map_of_coerce_columns:
  "distinct cols \<Longrightarrow>
   map_of (coerce_columns pd cols df) name =
     (if name \<in> set cols then map_option (coerce_fill_zero pd) (map_of df name)
      else map_of df name)"
proof (induction cols arbitrary: df)
  case Nil
  then show ?case by simp
next
  case (Cons col cols)
  define df' where "df' = (case map_of df col of
      Some cells \<Rightarrow> setitem df col (coerce_fill_zero pd cells) | None \<Rightarrow> df)"
  have step: "map_of df' n = (if n = col then map_option (coerce_fill_zero pd) (map_of df col)
                             else map_of df n)" for n
    by (cases "map_of df col") (simp_all add: df'_def map_of_setitem)
  have "map_of (coerce_columns pd (col # cols) df) name = map_of (coerce_columns pd cols df') name"
    by (simp add: df'_def)
  also have "\<dots> = (if name \<in> set cols then map_option (coerce_fill_zero pd) (map_of df' name)
                    else map_of df' name)"
    using Cons.prems by (intro Cons.IH) simp
  finally show ?case
    using Cons.prems by (auto simp: step)
qed

lemma columns_coerce_columns: "columns (coerce_columns pd cols df) = columns df"
proof (induction cols arbitrary: df)
  case Nil
  then show ?case by simp
next
  case (Cons col cols)
  show ?case
  proof (cases "map_of df col")
    case None
    then show ?thesis by (simp add: Cons.IH)
  next
    case (Some cells)
    then have "col \<in> set (columns df)" by (simp add: in_columns)
    with Some show ?thesis by (simp add: Cons.IH columns_setitem)
  qed
qed

lemma fill_sentinel_Inr:
  "fill_sentinel cols df = Inr out \<Longrightarrow> distinct cols \<Longrightarrow>
   columns out = columns df
   \<and> (\<forall>name. map_of out name =
         (if name \<in> set cols then map_option (fillna (Str ''--'')) (map_of df name)
          else map_of df name))"
proof (induction cols arbitrary: df)
  case Nil
  then show ?case by simp
next
  case (Cons col cols)
  from Cons.prems(1) obtain cells where
    c: "map_of df col = Some cells"
    and r: "fill_sentinel cols (setitem df col (fillna (Str ''--'') cells)) = Inr out"
    by (auto simp: raising_eq_Inr getitem_eq_Inr)
  have d: "distinct cols" and n: "col \<notin> set cols"
    using Cons.prems(2) by simp_all
  have "col \<in> set (columns df)" using c by (simp add: in_columns)
  with Cons.IH [OF r d] c n show ?case
    by (auto simp: map_of_setitem columns_setitem)
qed

lemma fill_sentinel_succeeds:
  "(\<exists>out. fill_sentinel cols df = Inr out) \<longleftrightarrow> list_all (\<lambda>c. map_of df c \<noteq> None) cols"
proof (induction cols arbitrary: df)
  case Nil
  then show ?case by simp
next
  case (Cons col cols)
  show ?case
  proof (cases "map_of df col")
    case None
    then show ?thesis by (simp add: getitem_def)
  next
    case (Some cells)
    have "list_all (\<lambda>c. map_of (setitem df col (fillna (Str ''--'') cells)) c \<noteq> None) cols
          \<longleftrightarrow> list_all (\<lambda>c. map_of df c \<noteq> None) cols"
      using Some by (auto simp: list_all_iff map_of_setitem)
    with Some Cons.IH [of "setitem df col (fillna (Str ''--'') cells)"] show ?thesis
      by (simp add: getitem_def)
  qed
qed

lemma select_succeeds:
  "(\<exists>out. select df names = Inr out) \<longleftrightarrow> list_all (\<lambda>c. map_of df c \<noteq> None) names"
proof (induction names)
  case Nil
  then show ?case by simp
next
  case (Cons name names)
  then show ?case
    by (cases "map_of df name"; cases "select df names") (auto simp: getitem_def)
qed

lemma not_Inr_iff_Inl: "(\<nexists>x. m = Inr x) \<longleftrightarrow> (\<exists>e. m = Inl e)"
  by (cases m) simp_all

lemma distinct_numeric_columns: "distinct numeric_columns"
  by (simp add: numeric_columns_def)

lemma distinct_sentinel_columns: "distinct sentinel_columns"
  by (simp add: sentinel_columns_def)

lemma sentinel_not_numeric: "name \<in> set sentinel_columns \<Longrightarrow> name \<notin> set numeric_columns"
  by (auto simp: sentinel_columns_def numeric_columns_def)

lemma special_not_numeric:
  "''Order creation date'' \<notin> set numeric_columns" "''Item title'' \<notin> set numeric_columns"
  "''Order number'' \<notin> set numeric_columns" "''Total Fees'' \<notin> set numeric_columns"
  by (simp_all add: numeric_columns_def)

lemma special_not_sentinel:
  "''Order creation date'' \<notin> set sentinel_columns" "''Item title'' \<notin> set sentinel_columns"
  "''Total Fees'' \<notin> set sentinel_columns" "''Order number'' \<in> set sentinel_columns"
  by (simp_all add: sentinel_columns_def)

text \<open>The table after the date, numeric and title steps.\<close>

definition gen_dash_titled :: "pandas \<Rightarrow> dataframe \<Rightarrow> series \<Rightarrow> series \<Rightarrow> series \<Rightarrow> dataframe" where
  "gen_dash_titled pd df dates order_numbers titles =
     setitem (coerce_columns pd numeric_columns (setitem df ''Order creation date'' dates))
       ''Item title'' (backfilled_titles order_numbers titles)"

lemma map_of_gen_dash_titled:
  "map_of (gen_dash_titled pd df dates order_numbers titles) name =
     (if name = ''Item title'' then Some (backfilled_titles order_numbers titles)
      else if name \<in> set numeric_columns then map_option (coerce_fill_zero pd) (map_of df name)
      else if name = ''Order creation date'' then Some dates
      else map_of df name)"
  using special_not_numeric
  by (auto simp: gen_dash_titled_def map_of_setitem map_of_coerce_columns distinct_numeric_columns)

lemma parse_contents_gen_dash_cases:
  "parse_contents_gen_dash pd df =
     (case map_of df ''Order creation date'' of
        None \<Rightarrow> Inl (KeyError ''Order creation date'')
      | Some dates \<Rightarrow>
     (case to_datetime pd dates of
        Inl e \<Rightarrow> Inl e
      | Inr dates' \<Rightarrow>
     (case map_of df ''Item title'' of
        None \<Rightarrow> Inl (KeyError ''Item title'')
      | Some titles \<Rightarrow>
     (case map_of df ''Order number'' of
        None \<Rightarrow> Inl (KeyError ''Order number'')
      | Some order_numbers \<Rightarrow>
     (case fill_sentinel sentinel_columns (gen_dash_titled pd df dates' order_numbers titles) of
        Inl e \<Rightarrow> Inl e
      | Inr filled \<Rightarrow>
     (case select filled fee_columns of
        Inl e \<Rightarrow> Inl e
      | Inr fees \<Rightarrow>
          Inr (setitem (setitem filled ''Total Fees'' (sum_axis1 (len filled) fees))
                 ''Order creation date'' (map (strftime_cell pd) dates'))))))))"
proof -
  have date: "map_of filled ''Order creation date'' = Some dates'"
    if "fill_sentinel sentinel_columns (gen_dash_titled pd df dates' order_numbers titles) = Inr filled"
    for filled dates' order_numbers titles
    using fill_sentinel_Inr [OF that distinct_sentinel_columns] special_not_sentinel special_not_numeric
    by (simp add: map_of_gen_dash_titled)
  show ?thesis
    using special_not_numeric
    by (auto simp: parse_contents_gen_dash_def gen_dash_titled_def backfilled_titles_def
        getitem_def map_of_setitem setitem_setitem map_of_coerce_columns distinct_numeric_columns
        Let_def date [unfolded gen_dash_titled_def backfilled_titles_def Let_def]
        split: option.splits sum.splits)
qed

subsection \<open>Which columns the orders dashboard changes\<close>

text \<open>The columns that \<^verbatim>\<open>parse_contents\<close> of gen\_dash\_app\_1.py reads without a guard.\<close>

definition required_columns :: "string list" where
  "required_columns = ''Order creation date'' # ''Item title'' # sentinel_columns @ fee_columns"

lemma parse_contents_gen_dash_InrD:
  assumes "parse_contents_gen_dash pd df = Inr out"
  obtains dates dates' titles order_numbers filled fees where
    "map_of df ''Order creation date'' = Some dates"
    "to_datetime pd dates = Inr dates'"
    "map_of df ''Item title'' = Some titles"
    "map_of df ''Order number'' = Some order_numbers"
    "fill_sentinel sentinel_columns (gen_dash_titled pd df dates' order_numbers titles) = Inr filled"
    "select filled fee_columns = Inr fees"
    "out = setitem (setitem filled ''Total Fees'' (sum_axis1 (len filled) fees))
             ''Order creation date'' (map (strftime_cell pd) dates')"
  using assms unfolding parse_contents_gen_dash_cases
  by (auto split: option.splits sum.splits)

lemma map_of_filled:
  assumes "fill_sentinel sentinel_columns (gen_dash_titled pd df dates order_numbers titles) = Inr filled"
  shows "map_of filled name =
     (if name \<in> set sentinel_columns then map_option (fillna (Str ''--'')) (map_of df name)
      else if name = ''Item title'' then Some (backfilled_titles order_numbers titles)
      else if name \<in> set numeric_columns then map_option (coerce_fill_zero pd) (map_of df name)
      else if name = ''Order creation date'' then Some dates
      else map_of df name)"
  using fill_sentinel_Inr [OF assms distinct_sentinel_columns] special_not_sentinel
    sentinel_not_numeric [of name]
  by (auto simp: map_of_gen_dash_titled)

lemma columns_gen_dash_titled:
  assumes "map_of df ''Order creation date'' \<noteq> None" and "map_of df ''Item title'' \<noteq> None"
  shows "columns (gen_dash_titled pd df dates order_numbers titles) = columns df"
proof -
  have "columns (setitem df ''Order creation date'' dates) = columns df"
    using assms(1) by (simp add: columns_setitem in_columns)
  then have "columns (coerce_columns pd numeric_columns (setitem df ''Order creation date'' dates))
             = columns df"
    by (simp add: columns_coerce_columns)
  then show ?thesis
    using assms(2) by (simp add: gen_dash_titled_def columns_setitem in_columns)
qed

lemma map_of_gen_dash_out:
  assumes "parse_contents_gen_dash pd df = Inr out"
  shows "\<exists>dates' order_numbers titles total_fees.
     map_of df ''Order number'' = Some order_numbers \<and> map_of df ''Item title'' = Some titles \<and>
     (\<forall>name. map_of out name =
       (if name = ''Order creation date'' then Some (map (strftime_cell pd) dates')
        else if name = ''Total Fees'' then Some total_fees
        else if name \<in> set sentinel_columns then map_option (fillna (Str ''--'')) (map_of df name)
        else if name = ''Item title'' then Some (backfilled_titles order_numbers titles)
        else if name \<in> set numeric_columns then map_option (coerce_fill_zero pd) (map_of df name)
        else map_of df name))"
proof -
  from assms obtain dates dates' titles order_numbers filled fees where
    t: "map_of df ''Item title'' = Some titles"
    and o: "map_of df ''Order number'' = Some order_numbers"
    and f: "fill_sentinel sentinel_columns (gen_dash_titled pd df dates' order_numbers titles) = Inr filled"
    and out: "out = setitem (setitem filled ''Total Fees'' (sum_axis1 (len filled) fees))
                      ''Order creation date'' (map (strftime_cell pd) dates')"
    by (rule parse_contents_gen_dash_InrD)
  have "\<forall>name. map_of out name =
       (if name = ''Order creation date'' then Some (map (strftime_cell pd) dates')
        else if name = ''Total Fees'' then Some (sum_axis1 (len filled) fees)
        else if name \<in> set sentinel_columns then map_option (fillna (Str ''--'')) (map_of df name)
        else if name = ''Item title'' then Some (backfilled_titles order_numbers titles)
        else if name \<in> set numeric_columns then map_option (coerce_fill_zero pd) (map_of df name)
        else map_of df name)"
    by (simp add: out map_of_setitem map_of_filled [OF f])
  with t o show ?thesis by blast
qed

lemma columns_gen_dash_out:
  assumes "parse_contents_gen_dash pd df = Inr out"
  shows "columns out = (if ''Total Fees'' \<in> set (columns df) then columns df
                        else columns df @ [''Total Fees''])"
proof -
  from assms obtain dates dates' titles order_numbers filled fees where
    d: "map_of df ''Order creation date'' = Some dates"
    and t: "map_of df ''Item title'' = Some titles"
    and f: "fill_sentinel sentinel_columns (gen_dash_titled pd df dates' order_numbers titles) = Inr filled"
    and out: "out = setitem (setitem filled ''Total Fees'' (sum_axis1 (len filled) fees))
                      ''Order creation date'' (map (strftime_cell pd) dates')"
    by (rule parse_contents_gen_dash_InrD)
  have cf: "columns filled = columns df"
    using fill_sentinel_Inr [OF f distinct_sentinel_columns] d t
    by (simp add: columns_gen_dash_titled)
  have din: "''Order creation date'' \<in> set (columns df)"
    using d by (simp add: in_columns)
  show ?thesis
  proof (cases "''Total Fees'' \<in> set (columns df)")
    case True
    then show ?thesis
      using cf din by (simp add: out columns_setitem)
  next
    case False
    then have "columns (setitem filled ''Total Fees'' (sum_axis1 (len filled) fees))
               = columns df @ [''Total Fees'']"
      using cf by (simp add: columns_setitem_new)
    then show ?thesis
      using False din by (simp add: out columns_setitem)
  qed
qed

lemma gen_dash_titled_present:
  assumes "map_of df ''Order creation date'' \<noteq> None" and "map_of df ''Item title'' \<noteq> None"
  shows "map_of (gen_dash_titled pd df dates order_numbers titles) c \<noteq> None
         \<longleftrightarrow> map_of df c \<noteq> None"
  using assms by (auto simp: map_of_gen_dash_titled)

lemma filled_present:
  assumes "fill_sentinel sentinel_columns (gen_dash_titled pd df dates order_numbers titles) = Inr filled"
    and "map_of df ''Order creation date'' \<noteq> None" and "map_of df ''Item title'' \<noteq> None"
  shows "map_of filled c \<noteq> None \<longleftrightarrow> map_of df c \<noteq> None"
  using assms(2,3) by (auto simp: map_of_filled [OF assms(1)])

lemma parse_contents_gen_dash_succeeds:
  "(\<exists>out. parse_contents_gen_dash pd df = Inr out) \<longleftrightarrow>
     list_all (\<lambda>c. map_of df c \<noteq> None) required_columns
     \<and> (\<exists>dates dates'. map_of df ''Order creation date'' = Some dates
                         \<and> to_datetime pd dates = Inr dates')"
proof
  assume "\<exists>out. parse_contents_gen_dash pd df = Inr out"
  then obtain out where ok: "parse_contents_gen_dash pd df = Inr out" ..
  then obtain dates dates' titles order_numbers filled fees where
    d: "map_of df ''Order creation date'' = Some dates"
    and p: "to_datetime pd dates = Inr dates'"
    and t: "map_of df ''Item title'' = Some titles"
    and f: "fill_sentinel sentinel_columns (gen_dash_titled pd df dates' order_numbers titles) = Inr filled"
    and s: "select filled fee_columns = Inr fees"
    by (rule parse_contents_gen_dash_InrD)
  from d t have d': "map_of df ''Order creation date'' \<noteq> None"
    and t': "map_of df ''Item title'' \<noteq> None"
    by simp_all
  have "list_all (\<lambda>c. map_of (gen_dash_titled pd df dates' order_numbers titles) c \<noteq> None)
          sentinel_columns"
    using f fill_sentinel_succeeds by blast
  then have 1: "list_all (\<lambda>c. map_of df c \<noteq> None) sentinel_columns"
    unfolding gen_dash_titled_present [OF d' t'] .
  have "list_all (\<lambda>c. map_of filled c \<noteq> None) fee_columns"
    using s select_succeeds by blast
  then have 2: "list_all (\<lambda>c. map_of df c \<noteq> None) fee_columns"
    unfolding filled_present [OF f d' t'] .
  from 1 2 d t have "list_all (\<lambda>c. map_of df c \<noteq> None) required_columns"
    by (simp add: required_columns_def)
  with d p show "list_all (\<lambda>c. map_of df c \<noteq> None) required_columns
     \<and> (\<exists>dates dates'. map_of df ''Order creation date'' = Some dates
                         \<and> to_datetime pd dates = Inr dates')"
    by blast
next
  assume a: "list_all (\<lambda>c. map_of df c \<noteq> None) required_columns
     \<and> (\<exists>dates dates'. map_of df ''Order creation date'' = Some dates
                         \<and> to_datetime pd dates = Inr dates')"
  then obtain dates dates' where
    d: "map_of df ''Order creation date'' = Some dates" and p: "to_datetime pd dates = Inr dates'"
    by blast
  from a have s: "list_all (\<lambda>c. map_of df c \<noteq> None) sentinel_columns"
    and fe: "list_all (\<lambda>c. map_of df c \<noteq> None) fee_columns"
    and "map_of df ''Item title'' \<noteq> None"
    by (simp_all add: required_columns_def)
  then obtain titles where t: "map_of df ''Item title'' = Some titles"
    by blast
  from s special_not_sentinel(4) have "map_of df ''Order number'' \<noteq> None"
    unfolding list_all_iff by blast
  then obtain order_numbers where o: "map_of df ''Order number'' = Some order_numbers"
    by blast
  from d t have d': "map_of df ''Order creation date'' \<noteq> None"
    and t': "map_of df ''Item title'' \<noteq> None"
    by simp_all
  have "list_all (\<lambda>c. map_of (gen_dash_titled pd df dates' order_numbers titles) c \<noteq> None)
          sentinel_columns"
    using s unfolding gen_dash_titled_present [OF d' t'] .
  then obtain filled where
    f: "fill_sentinel sentinel_columns (gen_dash_titled pd df dates' order_numbers titles) = Inr filled"
    using fill_sentinel_succeeds by blast
  have "list_all (\<lambda>c. map_of filled c \<noteq> None) fee_columns"
    using fe unfolding filled_present [OF f d' t'] .
  then obtain fees where "select filled fee_columns = Inr fees"
    using select_succeeds by blast
  with d p t o f show "\<exists>out. parse_contents_gen_dash pd df = Inr out"
    by (simp add: parse_contents_gen_dash_cases)
qed

lemma orders_report_required:
  "list_all (\<lambda>c. map_of orders_report c \<noteq> None) required_columns"
  by (simp add: required_columns_def sentinel_columns_def fee_columns_def orders_report_def)

lemma orders_report_dates:
  "map_of orders_report ''Order creation date'' = Some [Str ''2024-01-05'', Str ''2024-01-06'']"
  "to_datetime python [Str ''2024-01-05'', Str ''2024-01-06'']
     = Inr [Timestamp 20240105000000, Timestamp 20240106000000]"
  by (simp_all add: orders_report_def to_datetime_def to_datetime_cell_def python_simps)

lemma orders_report_succeeds: "\<exists>out. parse_contents_gen_dash python orders_report = Inr out"
  using orders_report_required orders_report_dates
  by (simp add: parse_contents_gen_dash_succeeds)

text \<open>
  Claim C4 (only the title and the monetary fields change) fails for
  gen\_dash\_app\_1.py: on the report above the function returns a table, the buyer
  names, absent in the input, are the sentinel text in the output, and the output has a
  column \<open>Total Fees\<close> that the input lacks.
\<close>

theorem parse_contents_gen_dash_changes_metadata:
  "\<not> isl (parse_contents_gen_dash python orders_report)
   \<and> map_of orders_report ''Buyer name'' = Some [NaN, NaN]
   \<and> map_of (projr (parse_contents_gen_dash python orders_report)) ''Buyer name''
       = Some [Str ''--'', Str ''--'']
   \<and> ''Total Fees'' \<notin> set (columns orders_report)
   \<and> ''Total Fees'' \<in> set (columns (projr (parse_contents_gen_dash python orders_report)))"
proof -
  from orders_report_succeeds obtain out where
    ok: "parse_contents_gen_dash python orders_report = Inr out" ..
  have b: "map_of orders_report ''Buyer name'' = Some [NaN, NaN]"
    by (simp add: orders_report_def)
  have n: "''Total Fees'' \<notin> set (columns orders_report)"
    by (simp add: orders_report_def columns_def)
  have s: "''Buyer name'' \<in> set sentinel_columns"
    by (simp add: sentinel_columns_def)
  from map_of_gen_dash_out [OF ok] obtain dates' order_numbers titles total_fees where
    m: "\<And>name. map_of out name =
       (if name = ''Order creation date'' then Some (map (strftime_cell python) dates')
        else if name = ''Total Fees'' then Some total_fees
        else if name \<in> set sentinel_columns then map_option (fillna (Str ''--'')) (map_of orders_report name)
        else if name = ''Item title'' then Some (backfilled_titles order_numbers titles)
        else if name \<in> set numeric_columns then map_option (coerce_fill_zero python) (map_of orders_report name)
        else map_of orders_report name)"
    by blast
  have "map_of out ''Buyer name'' = map_option (fillna (Str ''--'')) (map_of orders_report ''Buyer name'')"
    unfolding m [of "''Buyer name''"] using s by simp
  then have "map_of out ''Buyer name'' = Some [Str ''--'', Str ''--'']"
    by (simp add: b fillna_def)
  moreover have "''Total Fees'' \<in> set (columns out)"
    using columns_gen_dash_out [OF ok] n by simp
  ultimately show ?thesis
    using ok b n by simp
qed

text \<open>
  Claim C4, amended. When \<^verbatim>\<open>parse_contents\<close> of gen\_dash\_app\_1.py returns a table, a
  column keeps every value unless it is the item title, one of the listed numeric
  columns, the order creation date (parsed and written back as text), one of the nine
  listed metadata columns, or \<open>Total Fees\<close>. In the nine metadata columns only absent
  cells change: they become the sentinel text. The numeric columns hold the coerced
  values with absent results as \<open>0\<close>. The columns of the output are those of the input,
  in their order, with \<open>Total Fees\<close> added last when the input did not have it.
\<close>

theorem parse_contents_gen_dash_frame:
  assumes "parse_contents_gen_dash pd df = Inr out"
  shows "(\<forall>name. name \<notin> set ([''Order creation date'', ''Item title'', ''Total Fees'']
                               @ numeric_columns @ sentinel_columns)
            \<longrightarrow> map_of out name = map_of df name)
    \<and> (\<forall>name \<in> set sentinel_columns.
          map_of out name = map_option (map (\<lambda>c. if c = NaN then Str ''--'' else c)) (map_of df name))
    \<and> (\<forall>name \<in> set numeric_columns.
          map_of out name = map_option (coerce_fill_zero pd) (map_of df name))
    \<and> columns out = (if ''Total Fees'' \<in> set (columns df) then columns df
                      else columns df @ [''Total Fees''])"
proof -
  from map_of_gen_dash_out [OF assms] obtain dates' order_numbers titles total_fees where
    m: "\<And>name. map_of out name =
       (if name = ''Order creation date'' then Some (map (strftime_cell pd) dates')
        else if name = ''Total Fees'' then Some total_fees
        else if name \<in> set sentinel_columns then map_option (fillna (Str ''--'')) (map_of df name)
        else if name = ''Item title'' then Some (backfilled_titles order_numbers titles)
        else if name \<in> set numeric_columns then map_option (coerce_fill_zero pd) (map_of df name)
        else map_of df name)"
    by blast
  have 1: "\<forall>name. name \<notin> set ([''Order creation date'', ''Item title'', ''Total Fees'']
                               @ numeric_columns @ sentinel_columns)
            \<longrightarrow> map_of out name = map_of df name"
    by (simp add: m)
  have 2: "\<forall>name \<in> set sentinel_columns.
          map_of out name = map_option (map (\<lambda>c. if c = NaN then Str ''--'' else c)) (map_of df name)"
    using special_not_sentinel by (auto simp: m fillna_def [abs_def])
  have 3: "\<forall>name \<in> set numeric_columns.
          map_of out name = map_option (coerce_fill_zero pd) (map_of df name)"
    using special_not_numeric sentinel_not_numeric by (auto simp: m)
  show ?thesis
    using 1 2 3 columns_gen_dash_out [OF assms] by blast
qed

theorem parse_contents_gen_dash_frame_witness:
  "\<not> isl (parse_contents_gen_dash python orders_report)
   \<and> map_of (projr (parse_contents_gen_dash python orders_report)) ''Ship to city''
       = Some [Str ''Reno'', Str ''Boise'']
   \<and> map_of (projr (parse_contents_gen_dash python orders_report)) ''Item ID''
       = Some [Str ''1001'', Str ''1002'']
   \<and> map_of (projr (parse_contents_gen_dash python orders_report)) ''Gross amount''
       = Some [Num (123456 / 100), Num 0]
   \<and> last (columns (projr (parse_contents_gen_dash python orders_report))) = ''Total Fees''"
proof -
  from orders_report_succeeds obtain out where
    ok: "parse_contents_gen_dash python orders_report = Inr out" ..
  note f = parse_contents_gen_dash_frame [OF ok]
  have s: "''Ship to city'' \<in> set sentinel_columns" "''Item ID'' \<in> set sentinel_columns"
    by (simp_all add: sentinel_columns_def)
  have g: "''Gross amount'' \<in> set numeric_columns"
    by (simp add: numeric_columns_def)
  have c: "map_of orders_report ''Ship to city'' = Some [Str ''Reno'', Str ''Boise'']"
    "map_of orders_report ''Item ID'' = Some [Str ''1001'', Str ''1002'']"
    "map_of orders_report ''Gross amount'' = Some [Str ''$1,234.56'', Str ''--'']"
    by (simp_all add: orders_report_def)
  have n: "''Total Fees'' \<notin> set (columns orders_report)"
    by (simp add: orders_report_def columns_def)
  have q: "coerce_fill_zero python [Str ''$1,234.56'', Str ''--''] = [Num (123456 / 100), Num 0]"
    by (simp add: coerce_fill_zero_def fillna_def coerce_simps)
  from f have fs: "\<forall>name \<in> set sentinel_columns.
          map_of out name = map_option (map (\<lambda>c. if c = NaN then Str ''--'' else c)) (map_of orders_report name)"
    and fn: "\<forall>name \<in> set numeric_columns.
          map_of out name = map_option (coerce_fill_zero python) (map_of orders_report name)"
    by blast+
  have "map_of out ''Ship to city'' = Some [Str ''Reno'', Str ''Boise'']"
    using bspec [OF fs s(1)] by (simp add: c)
  moreover have "map_of out ''Item ID'' = Some [Str ''1001'', Str ''1002'']"
    using bspec [OF fs s(2)] by (simp add: c)
  moreover have "map_of out ''Gross amount'' = Some [Num (123456 / 100), Num 0]"
    using bspec [OF fn g] by (simp add: c q)
  moreover have "last (columns out) = ''Total Fees''"
  proof -
    from f have "columns out = (if ''Total Fees'' \<in> set (columns orders_report) then columns orders_report
                      else columns orders_report @ [''Total Fees''])"
      by blast
    with n show ?thesis by simp
  qed
  ultimately show ?thesis
    using ok by simp
qed

section \<open>When normalisation fails\<close>

text \<open>The columns that calculate\_payout.py reads.\<close>

definition payout_columns :: "string list" where
  "payout_columns = [''Transaction creation date'', ''Type'', ''Order number'',
                     ''Net amount'', ''Item title'']"

lemma map_of_replace_all:
  "map_of (replace_all a b df) name = map_option (replace a b) (map_of df name)"
  by (induction df) (auto simp: replace_all_def)

lemma map_of_boolean_index:
  "map_of (boolean_index df keep) name = map_option (mask_rows keep) (map_of df name)"
  by (induction df) (auto simp: boolean_index_def)

lemma map_of_rename:
  "name \<noteq> old \<Longrightarrow> name \<noteq> new \<Longrightarrow> map_of (rename df old new) name = map_of df name"
  by (induction df) (auto simp: rename_def)

lemma map_of_select:
  "select df names = Inr out \<Longrightarrow>
   map_of out name = (if name \<in> set names then map_of df name else None)"
proof (induction names arbitrary: out)
  case Nil
  then show ?case by simp
next
  case (Cons n names)
  from Cons.prems obtain col rest where
    "map_of df n = Some col" "select df names = Inr rest" "out = (n, col) # rest"
    by (auto simp: raising_eq_Inr getitem_eq_Inr)
  with Cons.IH [of rest] show ?case by auto
qed

lemma report_rows_payout_columns:
  "report_rows csv =
     raising (getitem (replace_all (Str ''--'') NaN csv) ''Type'') (\<lambda>types.
     raising (select (boolean_index (replace_all (Str ''--'') NaN csv)
                        (map (\<lambda>t. t \<noteq> Str ''Payout'') types)) payout_columns) (\<lambda>report.
     Inr (rename report ''Transaction creation date'' ''Date'')))"
  unfolding report_rows_def payout_columns_def Let_def ..

lemma report_rows_succeeds:
  "(\<exists>report. report_rows csv = Inr report) \<longleftrightarrow> list_all (\<lambda>c. map_of csv c \<noteq> None) payout_columns"
proof -
  define cleaned where "cleaned = replace_all (Str ''--'') NaN csv"
  have present: "map_of (boolean_index cleaned keep) c \<noteq> None \<longleftrightarrow> map_of csv c \<noteq> None" for keep c
    by (simp add: cleaned_def map_of_boolean_index map_of_replace_all)
  have sel: "(\<exists>out. select (boolean_index cleaned keep) payout_columns = Inr out)
             \<longleftrightarrow> list_all (\<lambda>c. map_of csv c \<noteq> None) payout_columns" for keep
    unfolding select_succeeds present ..
  show ?thesis
  proof (cases "map_of cleaned ''Type''")
    case None
    then have "map_of csv ''Type'' = None"
      by (simp add: cleaned_def map_of_replace_all)
    then have "\<not> list_all (\<lambda>c. map_of csv c \<noteq> None) payout_columns"
      by (simp add: payout_columns_def)
    moreover have "report_rows csv = Inl (KeyError ''Type'')"
      using None by (simp add: report_rows_payout_columns cleaned_def [symmetric] getitem_def)
    ultimately show ?thesis by simp
  next
    case (Some types)
    let ?keep = "map (\<lambda>t. t \<noteq> Str ''Payout'') types"
    have "report_rows csv =
            raising (select (boolean_index cleaned ?keep) payout_columns)
              (\<lambda>report. Inr (rename report ''Transaction creation date'' ''Date''))"
      using Some
      by (simp add: report_rows_payout_columns cleaned_def [symmetric] getitem_def)
    then have "(\<exists>report. report_rows csv = Inr report)
               \<longleftrightarrow> (\<exists>out. select (boolean_index cleaned ?keep) payout_columns = Inr out)"
      by (cases "select (boolean_index cleaned ?keep) payout_columns") simp_all
    then show ?thesis
      by (simp only: sel)
  qed
qed

lemma report_rows_columns:
  assumes "report_rows csv = Inr report"
  shows "map_of report ''Type'' \<noteq> None \<and> map_of report ''Order number'' \<noteq> None
         \<and> map_of report ''Item title'' \<noteq> None"
proof -
  define cleaned where "cleaned = replace_all (Str ''--'') NaN csv"
  from assms obtain types selected where
    s: "select (boolean_index cleaned (map (\<lambda>t. t \<noteq> Str ''Payout'') types)) payout_columns
          = Inr selected"
    and r: "report = rename selected ''Transaction creation date'' ''Date''"
    by (auto simp: report_rows_payout_columns cleaned_def [symmetric] raising_eq_Inr)
  have "list_all (\<lambda>c. map_of selected c \<noteq> None) [''Type'', ''Order number'', ''Item title'']"
    using s select_succeeds [of _ payout_columns] map_of_select [OF s]
    by (auto simp: payout_columns_def list_all_iff)
  then show ?thesis
    by (simp add: r map_of_rename)
qed

lemma calculate_payout_succeeds:
  "(\<exists>result. calculate_payout csv = Inr result)
   \<longleftrightarrow> list_all (\<lambda>c. map_of csv c \<noteq> None) payout_columns"
proof (cases "report_rows csv")
  case (Inl e)
  then have "\<not> (\<exists>report. report_rows csv = Inr report)" by simp
  with Inl show ?thesis
    unfolding report_rows_succeeds by (simp add: calculate_payout_def)
next
  case (Inr report)
  then have ok: "list_all (\<lambda>c. map_of csv c \<noteq> None) payout_columns"
    using report_rows_succeeds by blast
  from report_rows_columns [OF Inr] obtain types order_numbers titles where
    c: "map_of report ''Type'' = Some types" "map_of report ''Order number'' = Some order_numbers"
       "map_of report ''Item title'' = Some titles"
    by blast
  have "\<exists>ref. build_ref report = Inr ref"
    using c by (simp add: build_ref_def getitem_def map_of_boolean_index)
  then have "\<exists>result. calculate_payout csv = Inr result"
    using Inr c by (auto simp: calculate_payout_def getitem_def split: prod.splits)
  with ok show ?thesis by simp
qed

lemma isl_iff_not_Inr: "isl m \<longleftrightarrow> (\<nexists>x. m = Inr x)"
  by (cases m) simp_all

lemma to_datetime_succeeds:
  "(\<exists>dates'. to_datetime pd dates = Inr dates')
   \<longleftrightarrow> list_all (\<lambda>c. to_datetime_cell pd c \<noteq> None) dates"
  using to_datetime_eq_Inl [of pd dates] not_Inr_iff_Inl [of "to_datetime pd dates"]
  by (auto simp: list_all_iff)

text \<open>
  An orders report with every required column, whose first date cell is not a date.
\<close>

definition undated_orders_report :: dataframe where
  "undated_orders_report =
     setitem orders_report ''Order creation date'' [Str ''not a date'', Str ''2024-01-06'']"

text \<open>The small orders report without its buyer names.\<close>

definition buyerless_orders_report :: dataframe where
  "buyerless_orders_report = filter (\<lambda>(name, col). name \<noteq> ''Buyer name'') orders_report"

text \<open>
  Claim C5 says that a table with all declared columns never fails. For
  \<^verbatim>\<open>parse_contents\<close> of gen\_dash\_app\_1.py it does: the report above has every
  required column, and the function returns no table, because \<^verbatim>\<open>pd.to_datetime\<close>
  raises on the first date cell.
\<close>

theorem parse_contents_gen_dash_bad_date_fails:
  "list_all (\<lambda>c. map_of undated_orders_report c \<noteq> None) required_columns
   \<and> parse_contents_gen_dash python undated_orders_report = Inl (ValueError ''to_datetime'')"
proof -
  have "list_all (\<lambda>c. map_of undated_orders_report c \<noteq> None) required_columns"
    using orders_report_required
    by (simp add: undated_orders_report_def map_of_setitem list_all_iff)
  moreover have "map_of undated_orders_report ''Order creation date''
                 = Some [Str ''not a date'', Str ''2024-01-06'']"
    by (simp add: undated_orders_report_def map_of_setitem)
  moreover have "to_datetime python [Str ''not a date'', Str ''2024-01-06'']
                 = Inl (ValueError ''to_datetime'')"
    by (simp add: to_datetime_def to_datetime_cell_def python_def iso_datetime_def)
  ultimately show ?thesis
    by (simp add: parse_contents_gen_dash_cases)
qed

text \<open>
  Claim C5, amended. \<^verbatim>\<open>parse_contents\<close> of gen\_dash\_app\_1.py returns a table exactly
  when the input has every column the function reads and every cell of the date column
  parses; otherwise it returns an error and no table. The script calculate\_payout.py
  runs through exactly when the input has the five columns it reads; otherwise it ends
  with an error (a \<^verbatim>\<open>KeyError\<close>) and no table.
\<close>

theorem normalization_fails_only_on_columns_and_dates:
  "((\<exists>out. parse_contents_gen_dash pd df = Inr out) \<longleftrightarrow>
      list_all (\<lambda>c. map_of df c \<noteq> None) required_columns
      \<and> (\<exists>dates. map_of df ''Order creation date'' = Some dates
                   \<and> list_all (\<lambda>c. to_datetime_cell pd c \<noteq> None) dates))
   \<and> ((\<exists>e. parse_contents_gen_dash pd df = Inl e) \<longleftrightarrow> (\<nexists>out. parse_contents_gen_dash pd df = Inr out))
   \<and> ((\<exists>result. calculate_payout csv = Inr result) \<longleftrightarrow>
        list_all (\<lambda>c. map_of csv c \<noteq> None) payout_columns)
   \<and> ((\<exists>e. calculate_payout csv = Inl e) \<longleftrightarrow> (\<nexists>result. calculate_payout csv = Inr result))"
proof (intro conjI)
  show "(\<exists>out. parse_contents_gen_dash pd df = Inr out) \<longleftrightarrow>
      list_all (\<lambda>c. map_of df c \<noteq> None) required_columns
      \<and> (\<exists>dates. map_of df ''Order creation date'' = Some dates
                   \<and> list_all (\<lambda>c. to_datetime_cell pd c \<noteq> None) dates)"
    unfolding parse_contents_gen_dash_succeeds using to_datetime_succeeds [of pd] by blast
  show "(\<exists>e. parse_contents_gen_dash pd df = Inl e)
        \<longleftrightarrow> (\<nexists>out. parse_contents_gen_dash pd df = Inr out)"
    by (rule not_Inr_iff_Inl [symmetric])
  show "(\<exists>result. calculate_payout csv = Inr result) \<longleftrightarrow>
        list_all (\<lambda>c. map_of csv c \<noteq> None) payout_columns"
    by (rule calculate_payout_succeeds)
  show "(\<exists>e. calculate_payout csv = Inl e) \<longleftrightarrow> (\<nexists>result. calculate_payout csv = Inr result)"
    by (rule not_Inr_iff_Inl [symmetric])
qed

theorem normalization_fails_only_on_columns_and_dates_witness:
  "\<not> isl (parse_contents_gen_dash python orders_report)
   \<and> isl (parse_contents_gen_dash python buyerless_orders_report)
   \<and> isl (parse_contents_gen_dash python undated_orders_report)
   \<and> \<not> isl (calculate_payout two_titles_ledger)
   \<and> isl (calculate_payout orders_report)"
proof -
  have 1: "list_all (\<lambda>c. to_datetime_cell python c \<noteq> None) [Str ''2024-01-05'', Str ''2024-01-06'']"
    by (simp add: to_datetime_cell_def python_simps)
  have 2: "\<not> list_all (\<lambda>c. map_of buyerless_orders_report c \<noteq> None) required_columns"
    by (simp add: required_columns_def sentinel_columns_def buyerless_orders_report_def
        orders_report_def)
  have 3: "map_of undated_orders_report ''Order creation date''
             = Some [Str ''not a date'', Str ''2024-01-06'']"
    by (simp add: undated_orders_report_def map_of_setitem)
  have 4: "\<not> list_all (\<lambda>c. to_datetime_cell python c \<noteq> None) [Str ''not a date'', Str ''2024-01-06'']"
    by (simp add: to_datetime_cell_def python_def iso_datetime_def)
  have 5: "list_all (\<lambda>c. map_of two_titles_ledger c \<noteq> None) payout_columns"
    by (simp add: payout_columns_def two_titles_ledger_def)
  have 6: "\<not> list_all (\<lambda>c. map_of orders_report c \<noteq> None) payout_columns"
    by (simp add: payout_columns_def orders_report_def)
  note t = normalization_fails_only_on_columns_and_dates
  have "\<exists>out. parse_contents_gen_dash python orders_report = Inr out"
    using t [of python orders_report] orders_report_required orders_report_dates(1) 1 by simp
  moreover have "\<nexists>out. parse_contents_gen_dash python buyerless_orders_report = Inr out"
    using t [of python buyerless_orders_report] 2 by simp
  moreover have "\<nexists>out. parse_contents_gen_dash python undated_orders_report = Inr out"
    using t [of python undated_orders_report] 3 4 by simp
  moreover have "\<exists>result. calculate_payout two_titles_ledger = Inr result"
    using t [of _ _ two_titles_ledger] 5 by simp
  moreover have "\<nexists>result. calculate_payout orders_report = Inr result"
    using t [of _ _ orders_report] 6 by simp
  ultimately show ?thesis
    unfolding isl_iff_not_Inr by blast
qed

end
